theory Spec2Isabelle
  imports Complex_Main
begin

section \<open>Data model\<close>

text \<open>
  The storefront keeps its cart in the browser's local storage under the key \<open>cart\<close> and
  talks to a hosted relational store for product stock and orders. JavaScript numbers are
  modelled as follows: stock levels and quantities, which the code only increments,
  decrements and compares, are \<open>int\<close>; prices and money totals are exact rationals
  (\<open>rat\<close>), so the rounding error of double arithmetic is not part of the model.
  Strings are \<open>string\<close>.

  \<open>interface Product\<close> (product pages) and \<open>interface CartItem\<close> (\<open>Cart.tsx\<close>): a cart
  line is built as \<open>{ ...product, quantity }\<close>, so it carries every product field, among
  them the stock as it was when the line was created, plus the quantity. The fields
  \<open>id\<close> and \<open>image\<close> of the source are called \<open>pid\<close> and \<open>img\<close> here.
\<close>

record Product =
  pid :: string
  name :: string
  price :: rat
  img :: string
  stock :: int
  category :: string
  description :: string

record CartItem = Product +
  quantity :: int

type_synonym cart = "CartItem list"

text \<open>The notifications the pages raise through \<open>toast({ title: ... })\<close>, named by title.\<close>

datatype toast =
    AddedToCart string int
  | StockLimitReached int
  | ItemRemoved
  | CartCleared
  | EmptyCart
  | MissingInformation
  | StockUnavailable
  | OrderPlaced
  | OrderFailed

text \<open>
  What every page shares: the stored cart (\<open>None\<close> when the key \<open>cart\<close> is absent) and
  the notifications raised so far, oldest first. The cart page and the checkout page
  also hold a copy of the cart in their component state \<open>cartItems\<close>.
\<close>

record Browser =
  localStorage :: "cart option"
  toasts :: "toast list"

record CartState = Browser +
  cartItems :: cart

definition raise_toast :: "toast \<Rightarrow> 'a Browser_scheme \<Rightarrow> 'a Browser_scheme" where
  "raise_toast t s = s\<lparr>toasts := toasts s @ [t]\<rparr>"

section \<open>Cart store\<close>

subsection \<open>Adding to the cart (\<open>handleAddToCart\<close>)\<close>

text \<open>\<open>Array.prototype.findIndex\<close>: the first index whose element satisfies the test, \<open>-1\<close> if none.\<close>

fun findIndex :: "('a \<Rightarrow> bool) \<Rightarrow> 'a list \<Rightarrow> int" where
  "findIndex P [] = -1"
| "findIndex P (x # xs) = (if P x then 0 else (let i = findIndex P xs in if i = -1 then -1 else i + 1))"

text \<open>\<open>{ ...product, quantity }\<close>\<close>

definition newItem :: "Product \<Rightarrow> int \<Rightarrow> CartItem" where
  "newItem product qty =
     \<lparr>pid = pid product, name = name product, price = price product, img = img product,
      stock = stock product, category = category product, description = description product,
      quantity = qty\<rparr>"

text \<open>
  The body the three product pages share; on the listing pages the added quantity is the
  constant 1, on the product page it is the page's quantity selector.
  \<open>JSON.parse(localStorage.getItem('cart') || '[]')\<close> reads an absent key as the empty cart.
\<close>

definition existingCart :: "'a Browser_scheme \<Rightarrow> cart" where
  "existingCart s = (case localStorage s of None \<Rightarrow> [] | Some items \<Rightarrow> items)"

definition addToCart :: "Product \<Rightarrow> int \<Rightarrow> cart \<Rightarrow> cart" where
  "addToCart product qty items =
     (let existingItemIndex = findIndex (\<lambda>item. pid item = pid product) items in
      if existingItemIndex > -1
      then items[nat existingItemIndex :=
             (items ! nat existingItemIndex)\<lparr>quantity := quantity (items ! nat existingItemIndex) + qty\<rparr>]
      else items @ [newItem product qty])"

definition handleAddToCart :: "Product \<Rightarrow> int \<Rightarrow> 'a Browser_scheme \<Rightarrow> 'a Browser_scheme" where
  "handleAddToCart product qty s =
     raise_toast (AddedToCart (name product) qty)
       (s\<lparr>localStorage := Some (addToCart product qty (existingCart s))\<rparr>)"

text \<open>The product page: nothing happens while the product has not loaded.\<close>

definition handleAddToCart_detail :: "Product option \<Rightarrow> int \<Rightarrow> 'a Browser_scheme \<Rightarrow> 'a Browser_scheme" where
  "handleAddToCart_detail product qty s =
     (case product of None \<Rightarrow> s | Some p \<Rightarrow> handleAddToCart p qty s)"

text \<open>The listing pages.\<close>

definition handleAddToCart_listing :: "Product \<Rightarrow> 'a Browser_scheme \<Rightarrow> 'a Browser_scheme" where
  "handleAddToCart_listing product s = handleAddToCart product 1 s"

text \<open>A sequence of additions, each a product and a quantity.\<close>

fun addItems :: "(Product \<times> int) list \<Rightarrow> 'a Browser_scheme \<Rightarrow> 'a Browser_scheme" where
  "addItems [] s = s"
| "addItems ((p, q) # ops) s = addItems ops (handleAddToCart p q s)"

subsection \<open>The cart page (\<open>Cart.tsx\<close>)\<close>

definition saveCartToStorage :: "cart \<Rightarrow> 'a CartState_scheme \<Rightarrow> 'a CartState_scheme" where
  "saveCartToStorage items s = s\<lparr>localStorage := Some items, cartItems := items\<rparr>"

definition removeFromCart :: "string \<Rightarrow> 'a CartState_scheme \<Rightarrow> 'a CartState_scheme" where
  "removeFromCart itemId s =
     (let updatedItems = filter (\<lambda>item. pid item \<noteq> itemId) (cartItems s)
      in raise_toast ItemRemoved (saveCartToStorage updatedItems s))"

text \<open>
  The callback of \<open>cartItems.map\<close> in \<open>updateQuantity\<close>: the new line, and the notification
  it raises, if any.
\<close>

definition updateItem :: "string \<Rightarrow> int \<Rightarrow> CartItem \<Rightarrow> CartItem \<times> toast list" where
  "updateItem itemId newQuantity item =
     (if pid item = itemId then
        (if newQuantity > stock item
         then (item\<lparr>quantity := stock item\<rparr>, [StockLimitReached (stock item)])
         else (item\<lparr>quantity := newQuantity\<rparr>, []))
      else (item, []))"

definition updateQuantity :: "string \<Rightarrow> int \<Rightarrow> 'a CartState_scheme \<Rightarrow> 'a CartState_scheme" where
  "updateQuantity itemId newQuantity s =
     (if newQuantity < 1 then removeFromCart itemId s
      else
        (let results = map (updateItem itemId newQuantity) (cartItems s);
             updatedItems = map fst results
         in saveCartToStorage updatedItems (s\<lparr>toasts := toasts s @ concat (map snd results)\<rparr>)))"

definition clearCart :: "'a CartState_scheme \<Rightarrow> 'a CartState_scheme" where
  "clearCart s = raise_toast CartCleared (saveCartToStorage [] s)"

text \<open>\<open>cartItems.reduce((total, item) => total + (item.price * item.quantity), 0)\<close>\<close>

definition getTotalPrice :: "cart \<Rightarrow> rat" where
  "getTotalPrice items = foldl (\<lambda>total item. total + price item * of_int (quantity item)) 0 items"

definition getTotalItems :: "cart \<Rightarrow> int" where
  "getTotalItems items = foldl (\<lambda>total item. total + quantity item) 0 items"

text \<open>The data model's invariant on a cart: product ids are unique and every quantity is at least 1.\<close>

definition unique_ids :: "cart \<Rightarrow> bool" where
  "unique_ids items = distinct (map pid items)"

definition positive_quantities :: "cart \<Rightarrow> bool" where
  "positive_quantities items = list_all (\<lambda>item. 1 \<le> quantity item) items"

section \<open>Checkout\<close>

subsection \<open>The shipping form\<close>

record ShippingInfo =
  firstName :: string
  lastName :: string
  email :: string
  phone :: string
  address :: string
  city :: string
  state :: string
  zipCode :: string

text \<open>
  \<open>String.prototype.trim\<close> strips white space and line terminators from both ends. A
  \<open>char\<close> is a code unit below 256; the ECMAScript white-space code units in that range
  are TAB, LF, VT, FF, CR, SP and NBSP.
\<close>

definition isWhiteSpace :: "char \<Rightarrow> bool" where
  "isWhiteSpace c = (of_char c \<in> {9, 10, 11, 12, 13, 32, 160 :: nat})"

definition trim :: "string \<Rightarrow> string" where
  "trim s = rev (dropWhile isWhiteSpace (rev (dropWhile isWhiteSpace s)))"

record Checkout = CartState +
  user :: "string option"
  shippingInfo :: ShippingInfo
  isProcessing :: bool
  location :: string

definition navigate :: "string \<Rightarrow> Checkout \<Rightarrow> Checkout" where
  "navigate path s = s\<lparr>location := path\<rparr>"

text \<open>
  \<open>loadCartFromStorage\<close> of the checkout page, run once when the page mounts: an absent or
  empty stored cart sends the visitor to the cart page and leaves \<open>cartItems\<close> as it is.
  The stored value is typed here, so \<open>JSON.parse\<close> cannot fail.
\<close>

definition loadCartFromStorage :: "Checkout \<Rightarrow> Checkout" where
  "loadCartFromStorage s =
     (case localStorage s of
        Some items \<Rightarrow>
          if length items = 0 then navigate ''/cart'' (raise_toast EmptyCart s)
          else s\<lparr>cartItems := items\<rparr>
      | None \<Rightarrow> navigate ''/cart'' s)"

definition required :: "(ShippingInfo \<Rightarrow> string) list" where
  "required = [firstName, lastName, email, phone, address, city, state, zipCode]"

text \<open>The \<open>for (const field of required)\<close> loop: the first blank field ends it with \<open>false\<close>.\<close>

fun validateFields :: "(ShippingInfo \<Rightarrow> string) list \<Rightarrow> ShippingInfo \<Rightarrow> bool" where
  "validateFields [] info = True"
| "validateFields (field # rest) info =
     (if trim (field info) = [] then False else validateFields rest info)"

definition validateForm :: "Checkout \<Rightarrow> bool \<times> Checkout" where
  "validateForm s =
     (if validateFields required (shippingInfo s) then (True, s)
      else (False, raise_toast MissingInformation s))"

subsection \<open>The authoritative store\<close>

text \<open>
  The \<open>products\<close> table is seen through its \<open>stock\<close> column, keyed by product id; the
  \<open>orders\<close> table grows by insertion. Every request may fail (connectivity, a rejected
  write): \<open>Network\<close> says which ones do, per product id for reads and writes. Requests
  issued together by \<open>Promise.all\<close> are served in the order of the cart. The store is
  shared with other customers and with vendors: \<open>concurrent\<close> is what they do to it
  between this attempt's reads and its writes.
\<close>

record Order =
  user_id :: string
  products :: cart
  total :: rat
  status :: string

record Backend =
  stock_table :: "string \<rightharpoonup> int"
  orders_table :: "Order list"

record Network =
  select_fails :: "string \<Rightarrow> bool"
  update_fails :: "string \<Rightarrow> bool"
  insert_fails :: bool
  concurrent :: "Backend \<Rightarrow> Backend"

datatype error = SelectFailed string | UpdateFailed string | InsertFailed

datatype request = SelectStock string | UpdateStock string int | InsertOrder Order

text \<open>\<open>.from('products').select('stock').eq('id', id).single()\<close>: no row is an error too.\<close>

definition selectStock :: "Network \<Rightarrow> Backend \<Rightarrow> string \<Rightarrow> error + int" where
  "selectStock net db i =
     (if select_fails net i then Inl (SelectFailed i)
      else case stock_table db i of None \<Rightarrow> Inl (SelectFailed i) | Some st \<Rightarrow> Inr st)"

text \<open>\<open>.from('products').update({ stock: newStock }).eq('id', id)\<close>: no row, no change, no error.\<close>

definition updateStock :: "Network \<Rightarrow> string \<Rightarrow> int \<Rightarrow> Backend \<Rightarrow> error option \<times> Backend" where
  "updateStock net i newStock db =
     (if update_fails net i then (Some (UpdateFailed i), db)
      else (None, case stock_table db i of None \<Rightarrow> db
                  | Some _ \<Rightarrow> db\<lparr>stock_table := (stock_table db)(i \<mapsto> newStock)\<rparr>))"

subsection \<open>Placing the order (\<open>handlePlaceOrder\<close>)\<close>

record StockCheck =
  check_id :: string
  currentStock :: int
  requestedQty :: int

text \<open>
  \<open>Promise.all(cartItems.map(async (item) => ...))\<close>: one read per line; the first failed
  read rejects the whole.
\<close>

fun stockChecks :: "Network \<Rightarrow> Backend \<Rightarrow> cart \<Rightarrow> error + StockCheck list" where
  "stockChecks net db [] = Inr []"
| "stockChecks net db (item # rest) =
     (case selectStock net db (pid item) of
        Inl e \<Rightarrow> Inl e
      | Inr st \<Rightarrow>
          (case stockChecks net db rest of
             Inl e \<Rightarrow> Inl e
           | Inr checks \<Rightarrow>
               Inr (\<lparr>check_id = pid item, currentStock = st, requestedQty = quantity item\<rparr> # checks)))"

definition outOfStock :: "StockCheck list \<Rightarrow> StockCheck list" where
  "outOfStock checks = filter (\<lambda>check. currentStock check < requestedQty check) checks"

text \<open>\<open>stockChecks.find(check => check.id === item.id)?.currentStock || 0\<close>\<close>

definition or0 :: "int option \<Rightarrow> int" where
  "or0 v = (case v of None \<Rightarrow> 0 | Some n \<Rightarrow> if n = 0 then 0 else n)"

definition newStockFor :: "StockCheck list \<Rightarrow> CartItem \<Rightarrow> int" where
  "newStockFor checks item =
     (let currentStock' = or0 (map_option currentStock (find (\<lambda>check. check_id check = pid item) checks))
      in currentStock' - quantity item)"

text \<open>
  \<open>cartItems.map(async (item) => ...)\<close> starts every write before any is awaited, so a
  failed write does not keep the later ones from being made; the errors are collected in
  order and \<open>Promise.all\<close> rejects with the first.
\<close>

fun stockUpdates :: "Network \<Rightarrow> StockCheck list \<Rightarrow> cart \<Rightarrow> Backend \<Rightarrow> error list \<times> Backend" where
  "stockUpdates net checks [] db = ([], db)"
| "stockUpdates net checks (item # rest) db =
     (case updateStock net (pid item) (newStockFor checks item) db of
        (e, db1) \<Rightarrow>
          (case stockUpdates net checks rest db1 of
             (errs, db2) \<Rightarrow> ((case e of None \<Rightarrow> errs | Some x \<Rightarrow> x # errs), db2)))"

text \<open>
  How an attempt ends: \<open>Idle\<close> when a guard returned before anything was started, and the
  three ways out of the \<open>try\<close> block. \<open>requests\<close> lists the requests sent to the store, in
  order.
\<close>

datatype outcome = Idle | Failed_stock "StockCheck list" | Failed_commit error | Succeeded

record Attempt =
  outcome :: outcome
  page :: Checkout
  backend :: Backend
  requests :: "request list"

text \<open>The \<open>catch\<close> block followed by \<open>finally\<close>.\<close>

definition order_failed :: "error \<Rightarrow> Checkout \<Rightarrow> Backend \<Rightarrow> request list \<Rightarrow> Attempt" where
  "order_failed e s db reqs =
     \<lparr>outcome = Failed_commit e, page = (raise_toast OrderFailed s)\<lparr>isProcessing := False\<rparr>,
      backend = db, requests = reqs\<rparr>"

definition orderData :: "string \<Rightarrow> cart \<Rightarrow> Order" where
  "orderData u items =
     \<lparr>user_id = u, products = items, total = getTotalPrice items * (108 / 100), status = ''pending''\<rparr>"

definition handlePlaceOrder :: "Network \<Rightarrow> Backend \<Rightarrow> Checkout \<Rightarrow> Attempt" where
  "handlePlaceOrder net db s0 =
     (case validateForm s0 of
        (valid, s) \<Rightarrow>
          if \<not> valid then \<lparr>outcome = Idle, page = s, backend = db, requests = []\<rparr>
          else
            (case user s of
               None \<Rightarrow> \<lparr>outcome = Idle, page = s, backend = db, requests = []\<rparr>
             | Some u \<Rightarrow>
                 (let reads = map (\<lambda>item. SelectStock (pid item)) (cartItems s) in
                  case stockChecks net db (cartItems s) of
                    Inl e \<Rightarrow> order_failed e s db reads
                  | Inr checks \<Rightarrow>
                      if length (outOfStock checks) > 0 then
                        \<lparr>outcome = Failed_stock (outOfStock checks),
                         page = (raise_toast StockUnavailable s)\<lparr>isProcessing := False\<rparr>,
                         backend = db, requests = reads\<rparr>
                      else
                        (let writes = map (\<lambda>item. UpdateStock (pid item) (newStockFor checks item))
                                        (cartItems s)
                         in case stockUpdates net checks (cartItems s) (concurrent net db) of
                              (e # _, db1) \<Rightarrow> order_failed e s db1 (reads @ writes)
                            | ([], db1) \<Rightarrow>
                                (let insert = InsertOrder (orderData u (cartItems s)) in
                                 if insert_fails net
                                 then order_failed InsertFailed s db1 (reads @ writes @ [insert])
                                 else
                                   \<lparr>outcome = Succeeded,
                                    page = (navigate ''/'' (raise_toast OrderPlaced
                                              (s\<lparr>localStorage := None\<rparr>)))\<lparr>isProcessing := False\<rparr>,
                                    backend = db1\<lparr>orders_table :=
                                                orders_table db1 @ [orderData u (cartItems s)]\<rparr>,
                                    requests = reads @ writes @ [insert]\<rparr>)))))"

subsection \<open>Vocabulary for the properties\<close>

text \<open>A field is blank when it consists of white space only (the empty string included).\<close>

definition blank :: "string \<Rightarrow> bool" where
  "blank str = list_all isWhiteSpace str"

text \<open>
  A state \<open>s\<close> of the checkout page that mounted in state \<open>s0\<close> on the route
  \<open>/checkout\<close> and is still there after loading its cart. \<open>loadCartFromStorage\<close> holds the
  only call of \<open>setCartItems\<close>, so the page's cart is the loaded one, whatever the session
  callback and the form inputs have done to the user and the shipping fields since.
\<close>

definition loaded_from :: "Checkout \<Rightarrow> Checkout \<Rightarrow> bool" where
  "loaded_from s0 s =
     (location s0 = ''/checkout'' \<and> location (loadCartFromStorage s0) = ''/checkout''
      \<and> cartItems s = cartItems (loadCartFromStorage s0))"

text \<open>
  The stock a read of product \<open>i\<close> returns when it succeeds (it is only used for products
  that have a row), and the record \<open>stockChecks\<close> then builds for a line.
\<close>

definition stock_seen :: "Backend \<Rightarrow> string \<Rightarrow> int" where
  "stock_seen db i = (case stock_table db i of Some st \<Rightarrow> st | None \<Rightarrow> 0)"

definition observed :: "Backend \<Rightarrow> CartItem \<Rightarrow> StockCheck" where
  "observed db item =
     \<lparr>check_id = pid item, currentStock = stock_seen db (pid item), requestedQty = quantity item\<rparr>"

text \<open>A line is short when its requested quantity exceeds the stock seen for its product.\<close>

definition short :: "Backend \<Rightarrow> CartItem \<Rightarrow> bool" where
  "short db item = (stock_seen db (pid item) < quantity item)"

text \<open>Every read of the cart's products succeeds; every write does.\<close>

definition reads_succeed :: "Network \<Rightarrow> Backend \<Rightarrow> cart \<Rightarrow> bool" where
  "reads_succeed net db items =
     list_all (\<lambda>item. \<not> select_fails net (pid item) \<and> stock_table db (pid item) \<noteq> None) items"

definition writes_succeed :: "Network \<Rightarrow> cart \<Rightarrow> bool" where
  "writes_succeed net items = list_all (\<lambda>item. \<not> update_fails net (pid item)) items"

text \<open>The read requests and the write requests of an attempt on a cart.\<close>

definition reads :: "cart \<Rightarrow> request list" where
  "reads items = map (\<lambda>item. SelectStock (pid item)) items"

definition writes :: "Backend \<Rightarrow> cart \<Rightarrow> request list" where
  "writes db items =
     map (\<lambda>item. UpdateStock (pid item) (stock_seen db (pid item) - quantity item)) items"

text \<open>
  The order summary both pages render: \<open>getTotalPrice().toFixed(2)\<close>,
  \<open>(getTotalPrice() * 0.08).toFixed(2)\<close> and \<open>(getTotalPrice() * 1.08).toFixed(2)\<close>.
  \<open>toFixed(2)\<close> picks the nearest multiple of 0.01, the larger one on a tie; it is modelled
  by the number its digits denote.
\<close>

definition toFixed2 :: "rat \<Rightarrow> rat" where
  "toFixed2 x = of_int (round (x * 100)) / 100"

definition orderSummary :: "cart \<Rightarrow> rat \<times> rat \<times> rat" where
  "orderSummary items =
     (toFixed2 (getTotalPrice items), toFixed2 (getTotalPrice items * (8 / 100)),
      toFixed2 (getTotalPrice items * (108 / 100)))"

text \<open>
  The specification's \<open>totals()\<close>, in its own words, for comparison with what the code
  computes: the subtotal is the sum of price times quantity, the tax is the subtotal times
  0.08 rounded to two decimal places, the total is their sum. The result is
  (subtotal, tax, total).
\<close>

definition totals_spec :: "cart \<Rightarrow> rat \<times> rat \<times> rat" where
  "totals_spec items =
     (let subtotal = sum_list (map (\<lambda>item. price item * of_int (quantity item)) items);
          tax = of_int (round (subtotal * (8 / 100) * 100)) / 100
      in (subtotal, tax, subtotal + tax))"

section \<open>Examples\<close>

definition P1 :: Product where
  "P1 = \<lparr>pid = ''P1'', name = ''Rose bouquet'', price = 10, img = ''rose.png'',
         stock = 5, category = ''Flowers'', description = ''A dozen roses''\<rparr>"

definition P2 :: Product where
  "P2 = \<lparr>pid = ''P2'', name = ''Chocolate box'', price = 1 / 10, img = ''choc.png'',
         stock = 1, category = ''Sweets'', description = ''Assorted''\<rparr>"

definition P3 :: Product where
  "P3 = \<lparr>pid = ''P3'', name = ''Greeting card'', price = 1 / 10, img = ''card.png'',
         stock = 4, category = ''Cards'', description = ''Blank inside''\<rparr>"

definition cart_page :: "cart \<Rightarrow> CartState" where
  "cart_page items = \<lparr>localStorage = Some items, toasts = [], cartItems = items\<rparr>"

definition fresh_browser :: Browser where
  "fresh_browser = \<lparr>localStorage = None, toasts = []\<rparr>"

definition filled :: ShippingInfo where
  "filled = \<lparr>firstName = ''Ada'', lastName = ''Lovelace'', email = ''ada@example.org'',
             phone = ''555 0100'', address = ''12 Mill Lane'', city = ''Leeds'',
             state = ''Yorkshire'', zipCode = ''LS1 4AP''\<rparr>"

definition checkout_page :: "cart \<Rightarrow> Checkout" where
  "checkout_page items =
     \<lparr>localStorage = Some items, toasts = [], cartItems = items, user = Some ''u1'',
      shippingInfo = filled, isProcessing = False, location = ''/checkout''\<rparr>"

definition shop :: Backend where
  "shop = \<lparr>stock_table = [''P1'' \<mapsto> 5, ''P2'' \<mapsto> 0, ''P3'' \<mapsto> 4], orders_table = []\<rparr>"

definition online :: Network where
  "online = \<lparr>select_fails = (\<lambda>_. False), update_fails = (\<lambda>_. False), insert_fails = False,
              concurrent = (\<lambda>db. db)\<rparr>"

text \<open>Another customer buys one \<open>P1\<close> between the reads and the writes.\<close>

definition racing :: Network where
  "racing = online\<lparr>concurrent := (\<lambda>db. db\<lparr>stock_table := (stock_table db)(''P1'' \<mapsto> 4)\<rparr>)\<rparr>"

definition offline_orders :: Network where
  "offline_orders = racing\<lparr>insert_fails := True\<rparr>"

text \<open>
  The checkout page as it mounts, before its cart is loaded: \<open>cartItems\<close> is still the
  initial empty list, no session has been seen yet and the form is empty; the stored cart
  holds two \<open>P1\<close>.
\<close>

definition mounted_page :: Checkout where
  "mounted_page =
     \<lparr>localStorage = Some [newItem P1 2], toasts = [], cartItems = [], user = None,
      shippingInfo = \<lparr>firstName = [], lastName = [], email = [], phone = [], address = [],
                      city = [], state = [], zipCode = []\<rparr>,
      isProcessing = False, location = ''/checkout''\<rparr>"

definition city_blank :: Checkout where
  "city_blank = (checkout_page [newItem P1 2])\<lparr>shippingInfo := filled\<lparr>city := ''  ''\<rparr>\<rparr>"

section \<open>Properties of the cart store\<close>

subsection \<open>Auxiliary facts\<close>

lemma findIndex_ge: "- 1 \<le> findIndex P xs"
  by (induction xs) (auto simp: Let_def)

lemma findIndex_none: "findIndex P xs = - 1 \<longleftrightarrow> (\<forall>x \<in> set xs. \<not> P x)"
proof (induction xs)
  case Nil show ?case by simp
next
  case (Cons x xs)
  have "- 1 \<le> findIndex P xs" by (rule findIndex_ge)
  with Cons show ?case by (auto simp: Let_def)
qed

lemma addToCart_Nil: "addToCart p q [] = [newItem p q]"
  by (simp add: addToCart_def)

lemma addToCart_Cons:
  "addToCart p q (x # xs) =
     (if pid x = pid p then x\<lparr>quantity := quantity x + q\<rparr> # xs else x # addToCart p q xs)"
proof -
  have ge: "- 1 \<le> findIndex (\<lambda>item. pid item = pid p) xs" by (rule findIndex_ge)
  show ?thesis
  proof (cases "findIndex (\<lambda>item. pid item = pid p) xs = - 1")
    case True
    then show ?thesis by (simp add: addToCart_def Let_def)
  next
    case False
    with ge have pos: "0 \<le> findIndex (\<lambda>item. pid item = pid p) xs" by arith
    then have "nat (findIndex (\<lambda>item. pid item = pid p) xs + 1) = Suc (nat (findIndex (\<lambda>item. pid item = pid p) xs))"
      by arith
    with False pos show ?thesis by (simp add: addToCart_def Let_def)
  qed
qed

lemma addToCart_absent:
  "\<forall>item \<in> set items. pid item \<noteq> pid p \<Longrightarrow> addToCart p q items = items @ [newItem p q]"
  by (induction items) (simp_all add: addToCart_Nil addToCart_Cons)

lemma addToCart_unique:
  "distinct (map pid items) \<Longrightarrow> pid p \<in> pid ` set items \<Longrightarrow>
   addToCart p q items = map (\<lambda>item. if pid item = pid p then item\<lparr>quantity := quantity item + q\<rparr> else item) items"
proof (induction items)
  case Nil then show ?case by simp
next
  case (Cons x xs)
  show ?case
  proof (cases "pid x = pid p")
    case True
    from Cons.prems have "pid x \<notin> pid ` set xs" by simp
    with True have "\<forall>item \<in> set xs. pid item \<noteq> pid p" by (metis imageI)
    then have "map (\<lambda>item. if pid item = pid p then item\<lparr>quantity := quantity item + q\<rparr> else item) xs = xs"
      by (simp add: map_idI)
    with True show ?thesis by (simp add: addToCart_Cons)
  next
    case False
    with Cons show ?thesis by (auto simp add: addToCart_Cons)
  qed
qed

lemma addToCart_pids: "set (map pid (addToCart p q items)) = insert (pid p) (set (map pid items))"
  by (induction items) (auto simp: addToCart_Nil addToCart_Cons newItem_def)

lemma addToCart_unique_ids: "unique_ids items \<Longrightarrow> unique_ids (addToCart p q items)"
  unfolding unique_ids_def
proof (induction items)
  case Nil show ?case by (simp add: addToCart_Nil)
next
  case (Cons x xs)
  have "pid x \<noteq> pid p \<Longrightarrow> pid x \<notin> set (map pid (addToCart p q xs))"
    using Cons.prems by (simp add: addToCart_pids del: set_map)
  with Cons show ?case by (auto simp: addToCart_Cons)
qed

lemma addToCart_positive:
  "1 \<le> q \<Longrightarrow> positive_quantities items \<Longrightarrow> positive_quantities (addToCart p q items)"
  unfolding positive_quantities_def
  by (induction items) (auto simp: addToCart_Nil addToCart_Cons newItem_def)

lemma updateQuantity_cartItems:
  "1 \<le> q \<Longrightarrow> cartItems (updateQuantity itemId q s) = map (\<lambda>item. fst (updateItem itemId q item)) (cartItems s)"
  by (simp add: updateQuantity_def saveCartToStorage_def Let_def comp_def)

lemma updateQuantity_storage:
  "1 \<le> q \<Longrightarrow> localStorage (updateQuantity itemId q s) = Some (cartItems (updateQuantity itemId q s))"
  by (simp add: updateQuantity_def saveCartToStorage_def Let_def)

lemma updateItem_toasts:
  "concat (map (\<lambda>item. snd (updateItem itemId q item)) items) =
     map (\<lambda>item. StockLimitReached (stock item)) (filter (\<lambda>item. pid item = itemId \<and> stock item < q) items)"
  by (induction items) (simp_all add: updateItem_def)

lemma updateQuantity_toasts:
  "1 \<le> q \<Longrightarrow> toasts (updateQuantity itemId q s) =
     toasts s @ map (\<lambda>item. StockLimitReached (stock item)) (filter (\<lambda>item. pid item = itemId \<and> stock item < q) (cartItems s))"
  by (simp add: updateQuantity_def saveCartToStorage_def Let_def comp_def updateItem_toasts)

lemma updateItem_within:
  "distinct (map pid items) \<Longrightarrow> i < length items \<Longrightarrow> 1 \<le> quantity (items ! i) + q \<Longrightarrow>
   quantity (items ! i) + q \<le> stock (items ! i) \<Longrightarrow>
   map (\<lambda>item. fst (updateItem (pid (items ! i)) (quantity (items ! i) + q) item)) items =
   map (\<lambda>item. if pid item = pid (items ! i) then item\<lparr>quantity := quantity item + q\<rparr> else item) items"
proof -
  assume d: "distinct (map pid items)" and i: "i < length items"
    and le: "quantity (items ! i) + q \<le> stock (items ! i)"
  have "\<And>item. item \<in> set items \<Longrightarrow> pid item = pid (items ! i) \<Longrightarrow> item = items ! i"
  proof -
    fix item assume "item \<in> set items" and eq: "pid item = pid (items ! i)"
    then obtain j where j: "j < length items" "items ! j = item" by (auto simp: in_set_conv_nth)
    with d i eq have "j = i" by (metis (no_types, lifting) distinct_conv_nth length_map nth_map)
    with j show "item = items ! i" by simp
  qed
  then have "\<And>item. item \<in> set items \<Longrightarrow>
      fst (updateItem (pid (items ! i)) (quantity (items ! i) + q) item) =
      (if pid item = pid (items ! i) then item\<lparr>quantity := quantity item + q\<rparr> else item)"
    using le by (fastforce simp: updateItem_def)
  then show ?thesis by (simp cong: map_cong)
qed

lemma handleAddToCart_existingCart:
  "existingCart (handleAddToCart p q s) = addToCart p q (existingCart s)"
  by (simp add: handleAddToCart_def raise_toast_def existingCart_def)

lemma addItems_invariant:
  "list_all (\<lambda>(p, q). 1 \<le> q) ops \<Longrightarrow> positive_quantities (existingCart s) \<Longrightarrow> unique_ids (existingCart s) \<Longrightarrow>
   positive_quantities (existingCart (addItems ops s)) \<and> unique_ids (existingCart (addItems ops s))"
proof (induction ops arbitrary: s)
  case Nil then show ?case by simp
next
  case (Cons a ops)
  obtain p q where a: "a = (p, q)" by (cases a)
  with Cons.prems have q: "1 \<le> q" and rest: "list_all (\<lambda>(p, q). 1 \<le> q) ops" by simp_all
  have "positive_quantities (existingCart (handleAddToCart p q s))"
    using q Cons.prems(2) by (simp add: handleAddToCart_existingCart addToCart_positive)
  moreover have "unique_ids (existingCart (handleAddToCart p q s))"
    using Cons.prems(3) by (simp add: handleAddToCart_existingCart addToCart_unique_ids)
  ultimately show ?case using Cons.IH [OF rest] a by simp
qed

subsection \<open>Setting a quantity\<close>

text \<open>
  Claim C7. Setting a quantity below 1 is \<open>removeFromCart\<close> (so setting 0 removes the
  line: no line with that id is left, in the page state and in storage). For a quantity of
  at least 1 the cart keeps its length, and each line with the targeted id is clamped to
  its stock snapshot when the request exceeds it, and set exactly to the request otherwise;
  one \<open>Stock limit reached\<close> notification is raised per clamped line and none for any other
  line.
\<close>

theorem updateQuantity_sets_removes_or_clamps:
  "(newQuantity < 1 \<longrightarrow> updateQuantity itemId newQuantity s = removeFromCart itemId s)
   \<and> updateQuantity itemId 0 s = removeFromCart itemId s
   \<and> cartItems (removeFromCart itemId s) = filter (\<lambda>item. pid item \<noteq> itemId) (cartItems s)
   \<and> localStorage (removeFromCart itemId s) = Some (filter (\<lambda>item. pid item \<noteq> itemId) (cartItems s))
   \<and> (1 \<le> newQuantity \<longrightarrow>
        length (cartItems (updateQuantity itemId newQuantity s)) = length (cartItems s)
      \<and> localStorage (updateQuantity itemId newQuantity s) = Some (cartItems (updateQuantity itemId newQuantity s))
      \<and> (\<forall>i < length (cartItems s). pid (cartItems s ! i) = itemId \<longrightarrow>
            (stock (cartItems s ! i) < newQuantity \<longrightarrow>
               cartItems (updateQuantity itemId newQuantity s) ! i
                 = (cartItems s ! i)\<lparr>quantity := stock (cartItems s ! i)\<rparr>)
          \<and> (newQuantity \<le> stock (cartItems s ! i) \<longrightarrow>
               cartItems (updateQuantity itemId newQuantity s) ! i
                 = (cartItems s ! i)\<lparr>quantity := newQuantity\<rparr>))
      \<and> toasts (updateQuantity itemId newQuantity s) =
          toasts s @ map (\<lambda>item. StockLimitReached (stock item))
                       (filter (\<lambda>item. pid item = itemId \<and> stock item < newQuantity) (cartItems s)))"
proof -
  have a: "newQuantity < 1 \<longrightarrow> updateQuantity itemId newQuantity s = removeFromCart itemId s"
    by (simp add: updateQuantity_def)
  have b: "updateQuantity itemId 0 s = removeFromCart itemId s"
    by (simp add: updateQuantity_def)
  have c: "cartItems (removeFromCart itemId s) = filter (\<lambda>item. pid item \<noteq> itemId) (cartItems s)"
    by (simp add: removeFromCart_def saveCartToStorage_def raise_toast_def Let_def)
  have d: "localStorage (removeFromCart itemId s) = Some (filter (\<lambda>item. pid item \<noteq> itemId) (cartItems s))"
    by (simp add: removeFromCart_def saveCartToStorage_def raise_toast_def Let_def)
  have e: "1 \<le> newQuantity \<Longrightarrow> \<forall>i < length (cartItems s). pid (cartItems s ! i) = itemId \<longrightarrow>
            (stock (cartItems s ! i) < newQuantity \<longrightarrow>
               cartItems (updateQuantity itemId newQuantity s) ! i
                 = (cartItems s ! i)\<lparr>quantity := stock (cartItems s ! i)\<rparr>)
          \<and> (newQuantity \<le> stock (cartItems s ! i) \<longrightarrow>
               cartItems (updateQuantity itemId newQuantity s) ! i
                 = (cartItems s ! i)\<lparr>quantity := newQuantity\<rparr>)"
    by (simp add: updateQuantity_cartItems updateItem_def)
  from a b c d e show ?thesis
    by (simp add: updateQuantity_cartItems updateQuantity_storage updateQuantity_toasts)
qed

theorem updateQuantity_sets_removes_or_clamps_witness:
  "updateQuantity ''P1'' 0 (cart_page [newItem P1 2, newItem P2 1]) = removeFromCart ''P1'' (cart_page [newItem P1 2, newItem P2 1])
   \<and> cartItems (removeFromCart ''P1'' (cart_page [newItem P1 2, newItem P2 1])) = [newItem P2 1]
   \<and> cartItems (updateQuantity ''P1'' 9 (cart_page [newItem P1 2, newItem P2 1])) = [newItem P1 5, newItem P2 1]
   \<and> toasts (updateQuantity ''P1'' 9 (cart_page [newItem P1 2, newItem P2 1])) = [StockLimitReached 5]
   \<and> cartItems (updateQuantity ''P1'' 4 (cart_page [newItem P1 2, newItem P2 1])) = [newItem P1 4, newItem P2 1]
   \<and> toasts (updateQuantity ''P1'' 4 (cart_page [newItem P1 2, newItem P2 1])) = []"
  using updateQuantity_sets_removes_or_clamps [of 0 "''P1''" "cart_page [newItem P1 2, newItem P2 1]"]
        updateQuantity_sets_removes_or_clamps [of 9 "''P1''" "cart_page [newItem P1 2, newItem P2 1]"]
        updateQuantity_sets_removes_or_clamps [of 4 "''P1''" "cart_page [newItem P1 2, newItem P2 1]"]
  by (simp add: cart_page_def newItem_def P1_def P2_def updateQuantity_cartItems updateItem_def)

subsection \<open>Frame of a quantity update\<close>

text \<open>
  Claim C10. For a quantity of at least 1, \<open>updateQuantity\<close> keeps the number of lines,
  leaves every line whose id is not the targeted one exactly as it was, and changes nothing
  but the quantity of any line.
\<close>

theorem updateQuantity_frame:
  "1 \<le> q \<Longrightarrow>
     length (cartItems (updateQuantity itemId q s)) = length (cartItems s)
   \<and> (\<forall>i < length (cartItems s).
         (pid (cartItems s ! i) \<noteq> itemId \<longrightarrow> cartItems (updateQuantity itemId q s) ! i = cartItems s ! i)
       \<and> (cartItems (updateQuantity itemId q s) ! i)\<lparr>quantity := quantity (cartItems s ! i)\<rparr> = cartItems s ! i)"
  by (simp add: updateQuantity_cartItems updateItem_def)

theorem updateQuantity_frame_witness:
  "(1::int) \<le> 9
   \<and> cartItems (updateQuantity ''P1'' 9 (cart_page [newItem P1 2, newItem P2 1])) ! 1 = newItem P2 1
   \<and> cartItems (updateQuantity ''P1'' 9 (cart_page [newItem P1 2, newItem P2 1])) ! 0 = newItem P1 5"
proof -
  have h: "(1::int) \<le> 9" by simp
  show ?thesis
    using updateQuantity_frame [OF h, of "''P1''" "cart_page [newItem P1 2, newItem P2 1]"]
    by (simp add: cart_page_def newItem_def P1_def P2_def updateQuantity_cartItems updateItem_def)
qed

subsection \<open>Adding to an existing line, adding a new line\<close>

text \<open>
  Claim C8. Take a cart of the data model (product ids unique) that the cart page shows as
  it is stored, with a line for the product, and an added quantity such that the sum with
  the line's quantity is a quantity (at least 1, which holds whenever the line's quantity
  is at least 1 and nothing negative is added) and does not exceed the line's stock
  snapshot: then \<open>handleAddToCart\<close> stores the same cart as \<open>updateQuantity\<close> with that
  sum. When no stored line has the product's id, \<open>handleAddToCart\<close> appends a line whose
  product fields are the product's and whose quantity is the added one.
\<close>

theorem addItem_is_setQuantity:
  "(localStorage s = Some (cartItems s) \<and> unique_ids (cartItems s)
      \<and> i < length (cartItems s) \<and> pid (cartItems s ! i) = pid product
      \<and> 1 \<le> quantity (cartItems s ! i) + qty
      \<and> quantity (cartItems s ! i) + qty \<le> stock (cartItems s ! i)
    \<longrightarrow> localStorage (handleAddToCart product qty s)
          = localStorage (updateQuantity (pid product) (quantity (cartItems s ! i) + qty) s))
   \<and> ((\<forall>item \<in> set (existingCart s). pid item \<noteq> pid product)
    \<longrightarrow> localStorage (handleAddToCart product qty s) = Some (existingCart s @ [newItem product qty])
        \<and> Product.truncate (newItem product qty) = product
        \<and> quantity (newItem product qty) = qty)"
proof (intro conjI impI)
  assume h: "localStorage s = Some (cartItems s) \<and> unique_ids (cartItems s)
      \<and> i < length (cartItems s) \<and> pid (cartItems s ! i) = pid product
      \<and> 1 \<le> quantity (cartItems s ! i) + qty
      \<and> quantity (cartItems s ! i) + qty \<le> stock (cartItems s ! i)"
  then have d: "distinct (map pid (cartItems s))" and i: "i < length (cartItems s)"
    and p: "pid (cartItems s ! i) = pid product"
    and ge: "1 \<le> quantity (cartItems s ! i) + qty"
    and le: "quantity (cartItems s ! i) + qty \<le> stock (cartItems s ! i)"
    and st: "existingCart s = cartItems s"
    by (simp_all add: unique_ids_def existingCart_def)
  from i p have "pid product \<in> pid ` set (cartItems s)" by (metis imageI nth_mem)
  with d have add: "addToCart product qty (cartItems s) =
      map (\<lambda>item. if pid item = pid product then item\<lparr>quantity := quantity item + qty\<rparr> else item) (cartItems s)"
    by (rule addToCart_unique)
  from updateItem_within [OF d i ge le] p
  have upd: "map (\<lambda>item. fst (updateItem (pid product) (quantity (cartItems s ! i) + qty) item)) (cartItems s) =
      map (\<lambda>item. if pid item = pid product then item\<lparr>quantity := quantity item + qty\<rparr> else item) (cartItems s)"
    by simp
  have "localStorage (handleAddToCart product qty s) = Some (addToCart product qty (cartItems s))"
    by (simp add: handleAddToCart_def raise_toast_def st)
  moreover have "localStorage (updateQuantity (pid product) (quantity (cartItems s ! i) + qty) s)
      = Some (map (\<lambda>item. fst (updateItem (pid product) (quantity (cartItems s ! i) + qty) item)) (cartItems s))"
    using ge by (simp add: updateQuantity_storage updateQuantity_cartItems)
  ultimately show "localStorage (handleAddToCart product qty s)
          = localStorage (updateQuantity (pid product) (quantity (cartItems s ! i) + qty) s)"
    by (simp add: add upd)
next
  assume "\<forall>item \<in> set (existingCart s). pid item \<noteq> pid product"
  then show "localStorage (handleAddToCart product qty s) = Some (existingCart s @ [newItem product qty])"
    by (simp add: handleAddToCart_def raise_toast_def addToCart_absent)
next
  show "Product.truncate (newItem product qty) = product"
    by (simp add: newItem_def Product.truncate_def)
next
  show "quantity (newItem product qty) = qty" by (simp add: newItem_def)
qed

theorem addItem_is_setQuantity_witness:
  "localStorage (handleAddToCart P1 2 (cart_page [newItem P2 1, newItem P1 2]))
     = localStorage (updateQuantity ''P1'' 4 (cart_page [newItem P2 1, newItem P1 2]))
   \<and> localStorage (handleAddToCart P1 2 (cart_page [newItem P2 1, newItem P1 2])) = Some [newItem P2 1, newItem P1 4]
   \<and> localStorage (handleAddToCart P1 2 (cart_page [newItem P2 1])) = Some [newItem P2 1, newItem P1 2]"
  using addItem_is_setQuantity [of "cart_page [newItem P2 1, newItem P1 2]" 1 P1 2]
        addItem_is_setQuantity [of "cart_page [newItem P2 1]" 0 P1 2]
  by (simp add: cart_page_def newItem_def P1_def P2_def unique_ids_def existingCart_def
        updateQuantity_storage updateQuantity_cartItems updateItem_def)

subsection \<open>Quantities after additions\<close>

text \<open>
  Claim C9, as stated, fails: \<open>handleAddToCart\<close> never compares with the stock. Adding a
  product with stock 1 twice stores a line of quantity 2.
\<close>

theorem addItem_not_capped_counterexample:
  "localStorage (addItems [(P2, 1), (P2, 1)] fresh_browser) = Some [newItem P2 2]
   \<and> \<not> quantity (newItem P2 2) \<le> stock (newItem P2 2)"
  by (simp add: fresh_browser_def handleAddToCart_def raise_toast_def existingCart_def
        addToCart_def newItem_def P2_def)

text \<open>
  Claim C9, amended. After any sequence of additions of positive quantities to a cart
  whose quantities are positive and whose ids are unique, every quantity is still a
  positive integer and the ids are still unique. The quantity is not capped by the stock
  snapshot on addition; a line that is newly inserted with a quantity within the
  product's stock starts within its snapshot.
\<close>

theorem addItems_keep_quantities_positive:
  "(list_all (\<lambda>(p, q). 1 \<le> q) ops \<and> positive_quantities (existingCart s) \<and> unique_ids (existingCart s)
      \<longrightarrow> positive_quantities (existingCart (addItems ops s)) \<and> unique_ids (existingCart (addItems ops s)))
   \<and> ((\<forall>item \<in> set items. pid item \<noteq> pid p) \<and> q \<le> stock p
      \<longrightarrow> addToCart p q items = items @ [newItem p q]
          \<and> quantity (newItem p q) \<le> stock (newItem p q))"
  by (auto simp: addItems_invariant addToCart_absent newItem_def)

theorem addItems_keep_quantities_positive_witness:
  "positive_quantities (existingCart (addItems [(P1, 2), (P2, 1), (P1, 1)] fresh_browser))
   \<and> unique_ids (existingCart (addItems [(P1, 2), (P2, 1), (P1, 1)] fresh_browser))
   \<and> existingCart (addItems [(P1, 2), (P2, 1), (P1, 1)] fresh_browser) = [newItem P1 3, newItem P2 1]
   \<and> addToCart P2 1 [newItem P1 2] = [newItem P1 2, newItem P2 1]
   \<and> quantity (newItem P2 1) \<le> stock (newItem P2 1)"
  using addItems_keep_quantities_positive [of "[(P1, 2), (P2, 1), (P1, 1)]" fresh_browser "[newItem P1 2]" P2 1]
  by (simp add: fresh_browser_def handleAddToCart_def raise_toast_def existingCart_def
        addToCart_def newItem_def P1_def P2_def positive_quantities_def unique_ids_def)

section \<open>Properties of checkout\<close>

subsection \<open>Auxiliary facts\<close>

lemma dropWhile_all: "(\<forall>x \<in> set (dropWhile P xs). P x) \<longleftrightarrow> (\<forall>x \<in> set xs. P x)"
  by (induction xs) auto

lemma trim_empty: "trim str = [] \<longleftrightarrow> blank str"
  by (simp add: trim_def blank_def dropWhile_eq_Nil_conv list_all_iff dropWhile_all)

lemma validateFields_iff: "validateFields fs info \<longleftrightarrow> (\<forall>field \<in> set fs. \<not> blank (field info))"
  by (induction fs) (simp_all add: trim_empty)

lemma stockChecks_Inr:
  "reads_succeed net db items \<Longrightarrow> stockChecks net db items = Inr (map (observed db) items)"
  by (induction items) (auto simp: reads_succeed_def selectStock_def observed_def stock_seen_def)

lemma stockChecks_Inl:
  "\<not> reads_succeed net db items \<Longrightarrow> \<exists>e. stockChecks net db items = Inl e"
  by (induction items) (auto simp: reads_succeed_def selectStock_def split: sum.splits option.splits)

lemma outOfStock_observed:
  "outOfStock (map (observed db) items) =
     map (observed db) (filter (short db) items)"
  by (induction items) (simp_all add: outOfStock_def observed_def short_def)

lemma find_observed:
  "item \<in> set items \<Longrightarrow>
   map_option currentStock (find (\<lambda>check. check_id check = pid item) (map (observed db) items))
     = Some (stock_seen db (pid item))"
  by (induction items) (auto simp: observed_def)

lemma newStockFor_observed:
  "item \<in> set items \<Longrightarrow>
   newStockFor (map (observed db) items) item = stock_seen db (pid item) - quantity item"
  by (simp add: newStockFor_def find_observed or0_def)

lemma stockUpdates_snd:
  "snd (stockUpdates net checks (item # rest) db) =
     snd (stockUpdates net checks rest (snd (updateStock net (pid item) (newStockFor checks item) db)))"
  by (simp split: prod.splits)

lemma stockUpdates_fst:
  "fst (stockUpdates net checks (item # rest) db) =
     (case fst (updateStock net (pid item) (newStockFor checks item) db) of None \<Rightarrow> [] | Some x \<Rightarrow> [x])
     @ fst (stockUpdates net checks rest (snd (updateStock net (pid item) (newStockFor checks item) db)))"
  by (simp split: prod.splits option.splits)

lemma stockUpdates_orders: "orders_table (snd (stockUpdates net checks items db)) = orders_table db"
proof (induction items arbitrary: db)
  case Nil show ?case by simp
next
  case (Cons x xs)
  have "orders_table (snd (updateStock net (pid x) (newStockFor checks x) db)) = orders_table db"
    by (simp add: updateStock_def split: option.splits)
  with Cons show ?case by (simp only: stockUpdates_snd)
qed

lemma stockUpdates_errors:
  "fst (stockUpdates net checks items db) =
     map (\<lambda>item. UpdateFailed (pid item)) (filter (\<lambda>item. update_fails net (pid item)) items)"
proof (induction items arbitrary: db)
  case Nil show ?case by simp
next
  case (Cons x xs)
  have "fst (updateStock net (pid x) (newStockFor checks x) db)
      = (if update_fails net (pid x) then Some (UpdateFailed (pid x)) else None)"
    by (simp add: updateStock_def)
  with Cons show ?case by (simp add: stockUpdates_fst del: stockUpdates.simps)
qed

lemma stockUpdates_other:
  "\<forall>item \<in> set items. pid item \<noteq> k \<Longrightarrow> stock_table (snd (stockUpdates net checks items db)) k = stock_table db k"
proof (induction items arbitrary: db)
  case Nil show ?case by simp
next
  case (Cons x xs)
  from Cons.prems have "pid x \<noteq> k" by simp
  then have "stock_table (snd (updateStock net (pid x) (newStockFor checks x) db)) k = stock_table db k"
    by (auto simp: updateStock_def split: option.splits)
  with Cons show ?case by (simp add: stockUpdates_snd del: stockUpdates.simps)
qed

lemma stockUpdates_last:
  "writes_succeed net items \<Longrightarrow> stock_table db k \<noteq> None \<Longrightarrow> filter (\<lambda>item. pid item = k) items \<noteq> [] \<Longrightarrow>
   stock_table (snd (stockUpdates net checks items db)) k
     = Some (newStockFor checks (last (filter (\<lambda>item. pid item = k) items)))"
proof (induction items arbitrary: db)
  case Nil then show ?case by simp
next
  case (Cons x xs)
  let ?db1 = "snd (updateStock net (pid x) (newStockFor checks x) db)"
  from Cons.prems(1) have ok: "\<not> update_fails net (pid x)" and rest: "writes_succeed net xs"
    by (simp_all add: writes_succeed_def)
  have dom1: "stock_table ?db1 k \<noteq> None"
    using Cons.prems(2) by (auto simp: updateStock_def ok split: option.splits)
  show ?case
  proof (cases "filter (\<lambda>item. pid item = k) xs = []")
    case True
    then have "\<forall>item \<in> set xs. pid item \<noteq> k" by (simp add: filter_empty_conv)
    then have "stock_table (snd (stockUpdates net checks xs ?db1)) k = stock_table ?db1 k"
      by (rule stockUpdates_other)
    moreover from True Cons.prems(3) have "pid x = k" by (auto split: if_splits)
    moreover from this Cons.prems(2) have "stock_table ?db1 k = Some (newStockFor checks x)"
      by (auto simp: updateStock_def ok split: option.splits)
    ultimately show ?thesis using True by (simp add: stockUpdates_snd del: stockUpdates.simps)
  next
    case False
    from Cons.IH [OF rest dom1 False] False show ?thesis
      by (simp add: stockUpdates_snd del: stockUpdates.simps)
  qed
qed

lemma writes_observed:
  "map (\<lambda>item. UpdateStock (pid item) (newStockFor (map (observed db) items) item)) items = writes db items"
  by (simp add: writes_def newStockFor_observed cong: map_cong)

lemma writes_succeed_errors:
  "fst (stockUpdates net checks items db) = [] \<longleftrightarrow> writes_succeed net items"
  by (simp add: stockUpdates_errors writes_succeed_def filter_empty_conv list_all_iff)

lemma hpo_invalid:
  "\<not> validateFields required (shippingInfo s) \<Longrightarrow>
   handlePlaceOrder net db s =
     \<lparr>outcome = Idle, page = raise_toast MissingInformation s, backend = db, requests = []\<rparr>"
  by (simp add: handlePlaceOrder_def validateForm_def)

lemma hpo_no_user:
  "validateFields required (shippingInfo s) \<Longrightarrow> user s = None \<Longrightarrow>
   handlePlaceOrder net db s = \<lparr>outcome = Idle, page = s, backend = db, requests = []\<rparr>"
  by (simp add: handlePlaceOrder_def validateForm_def)

lemma hpo_read_error:
  assumes "validateFields required (shippingInfo s)" "user s = Some u"
    and "\<not> reads_succeed net db (cartItems s)"
  shows "\<exists>e. handlePlaceOrder net db s = order_failed e s db (reads (cartItems s))"
proof -
  from assms(3) obtain e where "stockChecks net db (cartItems s) = Inl e"
    using stockChecks_Inl by blast
  with assms(1,2) have "handlePlaceOrder net db s = order_failed e s db (reads (cartItems s))"
    by (simp add: handlePlaceOrder_def validateForm_def reads_def)
  then show ?thesis ..
qed

lemma hpo_shortage:
  assumes "validateFields required (shippingInfo s)" "user s = Some u"
    and "reads_succeed net db (cartItems s)"
    and "filter (short db) (cartItems s) \<noteq> []"
  shows "handlePlaceOrder net db s =
     \<lparr>outcome = Failed_stock (map (observed db) (filter (short db) (cartItems s))),
      page = (raise_toast StockUnavailable s)\<lparr>isProcessing := False\<rparr>,
      backend = db, requests = reads (cartItems s)\<rparr>"
  using assms
  by (simp add: handlePlaceOrder_def validateForm_def reads_def stockChecks_Inr outOfStock_observed)

lemma hpo_commit:
  assumes "validateFields required (shippingInfo s)" "user s = Some u"
    and "reads_succeed net db (cartItems s)"
    and "filter (short db) (cartItems s) = []"
  shows "handlePlaceOrder net db s =
     (case stockUpdates net (map (observed db) (cartItems s)) (cartItems s) (concurrent net db) of
        (e # _, db1) \<Rightarrow> order_failed e s db1 (reads (cartItems s) @ writes db (cartItems s))
      | ([], db1) \<Rightarrow>
          if insert_fails net
          then order_failed InsertFailed s db1
                 (reads (cartItems s) @ writes db (cartItems s) @ [InsertOrder (orderData u (cartItems s))])
          else \<lparr>outcome = Succeeded,
                page = (navigate ''/'' (raise_toast OrderPlaced (s\<lparr>localStorage := None\<rparr>)))\<lparr>isProcessing := False\<rparr>,
                backend = db1\<lparr>orders_table := orders_table db1 @ [orderData u (cartItems s)]\<rparr>,
                requests = reads (cartItems s) @ writes db (cartItems s) @ [InsertOrder (orderData u (cartItems s))]\<rparr>)"
  using assms
  by (simp add: handlePlaceOrder_def validateForm_def reads_def stockChecks_Inr outOfStock_observed
        writes_observed Let_def split: prod.splits list.splits)

lemma hpo_write_error:
  assumes "validateFields required (shippingInfo s)" "user s = Some u"
    and "reads_succeed net db (cartItems s)"
    and "filter (short db) (cartItems s) = []"
    and "\<not> writes_succeed net (cartItems s)"
  shows "\<exists>e. handlePlaceOrder net db s =
     order_failed e s (snd (stockUpdates net (map (observed db) (cartItems s)) (cartItems s) (concurrent net db)))
       (reads (cartItems s) @ writes db (cartItems s))"
proof -
  obtain errs db1 where su:
    "stockUpdates net (map (observed db) (cartItems s)) (cartItems s) (concurrent net db) = (errs, db1)"
    by (cases "stockUpdates net (map (observed db) (cartItems s)) (cartItems s) (concurrent net db)")
  with assms(5) have "errs \<noteq> []"
    using writes_succeed_errors [of net "map (observed db) (cartItems s)" "cartItems s" "concurrent net db"]
    by simp
  then obtain e es where "errs = e # es" by (cases errs) auto
  with su have "handlePlaceOrder net db s =
     order_failed e s (snd (stockUpdates net (map (observed db) (cartItems s)) (cartItems s) (concurrent net db)))
       (reads (cartItems s) @ writes db (cartItems s))"
    by (simp add: hpo_commit [OF assms(1-4)])
  then show ?thesis ..
qed

lemma hpo_insert_error:
  assumes "validateFields required (shippingInfo s)" "user s = Some u"
    and "reads_succeed net db (cartItems s)"
    and "filter (short db) (cartItems s) = []"
    and "writes_succeed net (cartItems s)"
    and "insert_fails net"
  shows "handlePlaceOrder net db s =
     order_failed InsertFailed s (snd (stockUpdates net (map (observed db) (cartItems s)) (cartItems s) (concurrent net db)))
       (reads (cartItems s) @ writes db (cartItems s) @ [InsertOrder (orderData u (cartItems s))])"
proof -
  obtain errs db1 where su:
    "stockUpdates net (map (observed db) (cartItems s)) (cartItems s) (concurrent net db) = (errs, db1)"
    by (cases "stockUpdates net (map (observed db) (cartItems s)) (cartItems s) (concurrent net db)")
  with assms(5) have "errs = []"
    using writes_succeed_errors [of net "map (observed db) (cartItems s)" "cartItems s" "concurrent net db"]
    by simp
  with su assms(6) show ?thesis by (simp add: hpo_commit [OF assms(1-4)])
qed

lemma hpo_success:
  assumes "validateFields required (shippingInfo s)" "user s = Some u"
    and "reads_succeed net db (cartItems s)"
    and "filter (short db) (cartItems s) = []"
    and "writes_succeed net (cartItems s)"
    and "\<not> insert_fails net"
  shows "handlePlaceOrder net db s =
     \<lparr>outcome = Succeeded,
      page = (navigate ''/'' (raise_toast OrderPlaced (s\<lparr>localStorage := None\<rparr>)))\<lparr>isProcessing := False\<rparr>,
      backend = (snd (stockUpdates net (map (observed db) (cartItems s)) (cartItems s) (concurrent net db)))
                  \<lparr>orders_table := orders_table (concurrent net db) @ [orderData u (cartItems s)]\<rparr>,
      requests = reads (cartItems s) @ writes db (cartItems s) @ [InsertOrder (orderData u (cartItems s))]\<rparr>"
proof -
  obtain errs db1 where su:
    "stockUpdates net (map (observed db) (cartItems s)) (cartItems s) (concurrent net db) = (errs, db1)"
    by (cases "stockUpdates net (map (observed db) (cartItems s)) (cartItems s) (concurrent net db)")
  with assms(5) have "errs = []"
    using writes_succeed_errors [of net "map (observed db) (cartItems s)" "cartItems s" "concurrent net db"]
    by simp
  moreover have "orders_table db1 = orders_table (concurrent net db)"
    using stockUpdates_orders [of net "map (observed db) (cartItems s)" "cartItems s" "concurrent net db"] su
    by simp
  ultimately show ?thesis using su assms(6) by (simp add: hpo_commit [OF assms(1-4)])
qed

lemmas example_defs = checkout_page_def filled_def online_def shop_def newItem_def P1_def P2_def

lemma filled_valid: "validateFields required (shippingInfo (checkout_page items))"
  by (simp add: required_def checkout_page_def filled_def trim_def isWhiteSpace_def)

lemma Failed_stock_cases:
  assumes "validateFields required (shippingInfo s)" "user s = Some u"
  shows "(\<exists>sh. outcome (handlePlaceOrder net db s) = Failed_stock sh)
     \<longleftrightarrow> reads_succeed net db (cartItems s) \<and> filter (short db) (cartItems s) \<noteq> []"
proof (cases "reads_succeed net db (cartItems s)")
  case False
  from hpo_read_error [OF assms False] show ?thesis using False by (auto simp: order_failed_def)
next
  case True
  show ?thesis
  proof (cases "filter (short db) (cartItems s) = []")
    case False
    from hpo_shortage [OF assms True False] show ?thesis using True False by simp
  next
    case noshort: True
    show ?thesis
    proof (cases "writes_succeed net (cartItems s)")
      case False
      from hpo_write_error [OF assms True noshort False] show ?thesis
        using noshort by (auto simp: order_failed_def)
    next
      case w: True
      show ?thesis
      proof (cases "insert_fails net")
        case True
        from hpo_insert_error [OF assms \<open>reads_succeed net db (cartItems s)\<close> noshort w True]
        show ?thesis using noshort by (simp add: order_failed_def)
      next
        case False
        from hpo_success [OF assms True noshort w False]
        show ?thesis using noshort by simp
      qed
    qed
  qed
qed

lemma updateStock_overwrites:
  "\<not> update_fails net i \<Longrightarrow> stock_table live i \<noteq> None \<Longrightarrow>
   stock_table (snd (updateStock net i v live)) i = Some v"
  by (auto simp: updateStock_def split: option.splits)

lemma filter_unique:
  "distinct (map pid items) \<Longrightarrow> item \<in> set items \<Longrightarrow> filter (\<lambda>it. pid it = pid item) items = [item]"
proof (induction items)
  case Nil then show ?case by simp
next
  case (Cons x xs)
  show ?case
  proof (cases "item = x")
    case True
    from Cons.prems(1) have "\<forall>it \<in> set xs. pid it \<noteq> pid x" by (metis distinct.simps(2) imageI list.simps(9) set_map)
    then have "filter (\<lambda>it. pid it = pid x) xs = []" by (simp add: filter_empty_conv)
    with True show ?thesis by simp
  next
    case False
    with Cons.prems have in_xs: "item \<in> set xs" by simp
    with Cons.prems(1) have "pid x \<noteq> pid item" by (metis distinct.simps(2) imageI list.simps(9) set_map)
    with Cons in_xs show ?thesis by simp
  qed
qed

lemma last_filter_props:
  "item \<in> set items \<Longrightarrow>
   last (filter (\<lambda>it. pid it = pid item) items) \<in> set items
   \<and> pid (last (filter (\<lambda>it. pid it = pid item) items)) = pid item"
proof -
  assume "item \<in> set items"
  then have ne: "filter (\<lambda>it. pid it = pid item) items \<noteq> []" by (auto simp: filter_empty_conv)
  then have "last (filter (\<lambda>it. pid it = pid item) items) \<in> set (filter (\<lambda>it. pid it = pid item) items)"
    by (rule last_in_set)
  then show ?thesis by simp
qed

lemma concurrent_online: "concurrent online db = db"
  by (simp add: online_def)

lemma committed_stock:
  assumes "writes_succeed net items" and "item \<in> set items"
    and "stock_table live (pid item) \<noteq> None"
  shows "stock_table (snd (stockUpdates net (map (observed db) items) items live)) (pid item)
     = Some (stock_seen db (pid item) - quantity (last (filter (\<lambda>it. pid it = pid item) items)))"
proof -
  let ?l = "last (filter (\<lambda>it. pid it = pid item) items)"
  from assms(2) have ne: "filter (\<lambda>it. pid it = pid item) items \<noteq> []"
    by (auto simp: filter_empty_conv)
  from last_filter_props [OF assms(2)] have l: "?l \<in> set items" "pid ?l = pid item" by simp_all
  have "stock_table (snd (stockUpdates net (map (observed db) items) items live)) (pid item)
      = Some (newStockFor (map (observed db) items) ?l)"
    by (rule stockUpdates_last [OF assms(1,3) ne])
  also have "newStockFor (map (observed db) items) ?l = stock_seen db (pid ?l) - quantity ?l"
    by (rule newStockFor_observed [OF l(1)])
  finally show ?thesis by (simp add: l(2))
qed

lemma hpo_committed_stock:
  assumes "validateFields required (shippingInfo s)" "user s = Some u"
    and "reads_succeed net db (cartItems s)"
    and "filter (short db) (cartItems s) = []"
    and "writes_succeed net (cartItems s)"
  shows "stock_table (backend (handlePlaceOrder net db s)) =
     stock_table (snd (stockUpdates net (map (observed db) (cartItems s)) (cartItems s) (concurrent net db)))"
proof (cases "insert_fails net")
  case True
  from hpo_insert_error [OF assms True] show ?thesis by (simp add: order_failed_def)
next
  case False
  from hpo_success [OF assms False] show ?thesis by simp
qed

lemma hpo_classify:
  "(\<not> validateFields required (shippingInfo s)
      \<and> handlePlaceOrder net db s =
          \<lparr>outcome = Idle, page = raise_toast MissingInformation s, backend = db, requests = []\<rparr>)
   \<or> (validateFields required (shippingInfo s) \<and> user s = None
      \<and> handlePlaceOrder net db s = \<lparr>outcome = Idle, page = s, backend = db, requests = []\<rparr>)
   \<or> (validateFields required (shippingInfo s) \<and> user s \<noteq> None
      \<and> (\<exists>e db' reqs. handlePlaceOrder net db s = order_failed e s db' reqs))
   \<or> (validateFields required (shippingInfo s) \<and> user s \<noteq> None
      \<and> (\<exists>sh. handlePlaceOrder net db s =
            \<lparr>outcome = Failed_stock sh, page = (raise_toast StockUnavailable s)\<lparr>isProcessing := False\<rparr>,
             backend = db, requests = reads (cartItems s)\<rparr>))
   \<or> (validateFields required (shippingInfo s)
      \<and> (\<exists>u db'. user s = Some u \<and> handlePlaceOrder net db s =
           \<lparr>outcome = Succeeded,
            page = (navigate ''/'' (raise_toast OrderPlaced (s\<lparr>localStorage := None\<rparr>)))\<lparr>isProcessing := False\<rparr>,
            backend = db'\<lparr>orders_table := orders_table (concurrent net db) @ [orderData u (cartItems s)]\<rparr>,
            requests = reads (cartItems s) @ writes db (cartItems s) @ [InsertOrder (orderData u (cartItems s))]\<rparr>))"
proof (cases "validateFields required (shippingInfo s)")
  case False
  then show ?thesis by (simp add: hpo_invalid)
next
  case v: True
  show ?thesis
  proof (cases "user s")
    case None
    with v show ?thesis by (simp add: hpo_no_user)
  next
    case (Some u)
    show ?thesis
    proof (cases "reads_succeed net db (cartItems s)")
      case False
      from hpo_read_error [OF v Some False] v Some show ?thesis by auto
    next
      case rd: True
      show ?thesis
      proof (cases "filter (short db) (cartItems s) = []")
        case False
        from hpo_shortage [OF v Some rd False] v Some show ?thesis by auto
      next
        case ns: True
        show ?thesis
        proof (cases "writes_succeed net (cartItems s)")
          case False
          from hpo_write_error [OF v Some rd ns False] v Some show ?thesis by auto
        next
          case w: True
          show ?thesis
          proof (cases "insert_fails net")
            case True
            from hpo_insert_error [OF v Some rd ns w True] v Some show ?thesis by auto
          next
            case False
            from hpo_success [OF v Some rd ns w False] v Some show ?thesis by auto
          qed
        qed
      qed
    qed
  qed
qed

lemma outcome_Idle_iff:
  "outcome (handlePlaceOrder net db s) = Idle
     \<longleftrightarrow> \<not> validateFields required (shippingInfo s) \<or> user s = None"
  using hpo_classify [of s net db] by (auto simp: order_failed_def)

lemma outcome_Succeeded_order:
  "outcome (handlePlaceOrder net db s) = Succeeded \<Longrightarrow>
   \<exists>u. user s = Some u
      \<and> orders_table (backend (handlePlaceOrder net db s))
          = orders_table (concurrent net db) @ [orderData u (cartItems s)]"
  using hpo_classify [of s net db] by (auto simp: order_failed_def)

lemma required_valid:
  "validateFields required info \<longleftrightarrow>
     \<not> blank (firstName info) \<and> \<not> blank (lastName info) \<and> \<not> blank (email info) \<and> \<not> blank (phone info)
     \<and> \<not> blank (address info) \<and> \<not> blank (city info) \<and> \<not> blank (state info) \<and> \<not> blank (zipCode info)"
  by (simp add: validateFields_iff required_def)

lemma getTotalPrice_foldl:
  "foldl (\<lambda>total item. total + price item * of_int (quantity item)) a items
     = a + (\<Sum>item\<leftarrow>items. price item * of_int (quantity item))"
  by (induction items arbitrary: a) (simp_all add: add.assoc)

lemma getTotalPrice_sum:
  "getTotalPrice items = (\<Sum>item\<leftarrow>items. price item * of_int (quantity item))"
  by (simp add: getTotalPrice_def getTotalPrice_foldl)

subsection \<open>Stock verification\<close>

text \<open>
  Claim C1. Once the guards have passed, the attempt ends in the stock failure exactly when
  every stock read succeeded and at least one line is short, that is, requests more than
  the stock seen for its product. When the reads succeed, the verification sees the store's
  stock for each line, its shortage list is the list of the short lines and of no other
  line, in cart order, and it is non-empty exactly when some line is short; a single short
  line aborts the whole attempt: it ends in the stock failure carrying that list, having
  sent the reads only, with the store as it was.
\<close>

theorem verification_fails_iff_shortage:
  assumes "validateFields required (shippingInfo s)" and "user s = Some u"
  shows
   "((\<exists>sh. outcome (handlePlaceOrder net db s) = Failed_stock sh)
       \<longleftrightarrow> reads_succeed net db (cartItems s) \<and> (\<exists>item \<in> set (cartItems s). short db item))
    \<and> (reads_succeed net db (cartItems s) \<longrightarrow>
          stockChecks net db (cartItems s) = Inr (map (observed db) (cartItems s))
        \<and> outOfStock (map (observed db) (cartItems s)) = map (observed db) (filter (short db) (cartItems s))
        \<and> (outOfStock (map (observed db) (cartItems s)) \<noteq> [] \<longleftrightarrow> (\<exists>item \<in> set (cartItems s). short db item))
        \<and> ((\<exists>item \<in> set (cartItems s). short db item) \<longrightarrow>
              outcome (handlePlaceOrder net db s)
                = Failed_stock (map (observed db) (filter (short db) (cartItems s)))
            \<and> requests (handlePlaceOrder net db s) = map (\<lambda>item. SelectStock (pid item)) (cartItems s)
            \<and> backend (handlePlaceOrder net db s) = db))"
proof -
  have ex: "(\<exists>item \<in> set (cartItems s). short db item) \<longleftrightarrow> filter (short db) (cartItems s) \<noteq> []"
    by (simp add: filter_empty_conv)
  have a: "(\<exists>sh. outcome (handlePlaceOrder net db s) = Failed_stock sh)
       \<longleftrightarrow> reads_succeed net db (cartItems s) \<and> (\<exists>item \<in> set (cartItems s). short db item)"
    using Failed_stock_cases [OF assms] ex by simp
  have b: "reads_succeed net db (cartItems s) \<Longrightarrow> filter (short db) (cartItems s) \<noteq> [] \<Longrightarrow>
      outcome (handlePlaceOrder net db s) = Failed_stock (map (observed db) (filter (short db) (cartItems s)))
      \<and> requests (handlePlaceOrder net db s) = map (\<lambda>item. SelectStock (pid item)) (cartItems s)
      \<and> backend (handlePlaceOrder net db s) = db"
    by (simp add: hpo_shortage [OF assms] reads_def)
  from a b show ?thesis
    by (simp add: stockChecks_Inr outOfStock_observed ex)
qed

theorem verification_fails_iff_shortage_witness:
  "validateFields required (shippingInfo (checkout_page [newItem P1 2, newItem P2 1]))
   \<and> user (checkout_page [newItem P1 2, newItem P2 1]) = Some ''u1''
   \<and> reads_succeed online shop [newItem P1 2, newItem P2 1]
   \<and> short shop (newItem P2 1) \<and> \<not> short shop (newItem P1 2)
   \<and> outcome (handlePlaceOrder online shop (checkout_page [newItem P1 2, newItem P2 1]))
       = Failed_stock [\<lparr>check_id = ''P2'', currentStock = 0, requestedQty = 1\<rparr>]"
proof -
  have h1: "validateFields required (shippingInfo (checkout_page [newItem P1 2, newItem P2 1]))"
    by (rule filled_valid)
  have h2: "user (checkout_page [newItem P1 2, newItem P2 1]) = Some ''u1''"
    by (simp add: checkout_page_def)
  have c: "cartItems (checkout_page [newItem P1 2, newItem P2 1]) = [newItem P1 2, newItem P2 1]"
    by (simp add: checkout_page_def)
  have h3: "reads_succeed online shop [newItem P1 2, newItem P2 1]"
    by (simp add: reads_succeed_def example_defs)
  have s: "short shop (newItem P2 1) \<and> \<not> short shop (newItem P1 2)"
    by (simp add: short_def stock_seen_def example_defs)
  have o: "observed shop (newItem P2 1) = \<lparr>check_id = ''P2'', currentStock = 0, requestedQty = 1\<rparr>"
    by (simp add: observed_def stock_seen_def example_defs)
  from verification_fails_iff_shortage [OF h1 h2, of online shop] h1 h2 h3 s o show ?thesis
    by (simp add: c)
qed

subsection \<open>The commit step\<close>

text \<open>
  Claim C2. When the guards have passed, the reads succeeded and no line is short, the
  requests of the attempt are, in this order: the reads, then for every line of the cart
  one write of (stock seen at verification) minus (requested quantity), then the single
  order insert, which is sent only if every write succeeded. A write that succeeds
  overwrites: whatever the row holds at that moment, it holds the written value afterwards.
  So when all writes succeed on a cart with unique ids, each product of the cart ends with
  the stock seen at verification minus the quantity, whatever other clients did to its row
  in between.
\<close>

theorem commit_writes_verified_stock_minus_quantity:
  assumes "validateFields required (shippingInfo s)" and "user s = Some u"
    and "reads_succeed net db (cartItems s)"
    and "\<forall>item \<in> set (cartItems s). \<not> short db item"
  shows
   "requests (handlePlaceOrder net db s) =
      map (\<lambda>item. SelectStock (pid item)) (cartItems s)
      @ map (\<lambda>item. UpdateStock (pid item) (stock_seen db (pid item) - quantity item)) (cartItems s)
      @ (if writes_succeed net (cartItems s) then [InsertOrder (orderData u (cartItems s))] else [])
    \<and> (\<forall>live i v. \<not> update_fails net i \<and> stock_table live i \<noteq> None \<longrightarrow>
          stock_table (snd (updateStock net i v live)) i = Some v)
    \<and> (writes_succeed net (cartItems s) \<and> unique_ids (cartItems s) \<longrightarrow>
          (\<forall>item \<in> set (cartItems s).
             stock_table (concurrent net db) (pid item) \<noteq> None \<longrightarrow>
             stock_table (backend (handlePlaceOrder net db s)) (pid item)
               = Some (stock_seen db (pid item) - quantity item)))"
proof -
  from assms(4) have ns: "filter (short db) (cartItems s) = []" by (simp add: filter_empty_conv)
  have a: "requests (handlePlaceOrder net db s) =
      reads (cartItems s) @ writes db (cartItems s)
      @ (if writes_succeed net (cartItems s) then [InsertOrder (orderData u (cartItems s))] else [])"
  proof (cases "writes_succeed net (cartItems s)")
    case False
    from hpo_write_error [OF assms(1-3) ns False] show ?thesis
      using False by (auto simp: order_failed_def)
  next
    case True
    show ?thesis
    proof (cases "insert_fails net")
      case ins: True
      from hpo_insert_error [OF assms(1-3) ns True ins] show ?thesis
        using True by (simp add: order_failed_def)
    next
      case False
      from hpo_success [OF assms(1-3) ns True False] show ?thesis using True by simp
    qed
  qed
  have c: "writes_succeed net (cartItems s) \<and> unique_ids (cartItems s) \<longrightarrow>
          (\<forall>item \<in> set (cartItems s).
             stock_table (concurrent net db) (pid item) \<noteq> None \<longrightarrow>
             stock_table (backend (handlePlaceOrder net db s)) (pid item)
               = Some (stock_seen db (pid item) - quantity item))"
  proof (intro impI ballI)
    fix item
    assume w: "writes_succeed net (cartItems s) \<and> unique_ids (cartItems s)"
      and it: "item \<in> set (cartItems s)"
      and row: "stock_table (concurrent net db) (pid item) \<noteq> None"
    from w it have "filter (\<lambda>it. pid it = pid item) (cartItems s) = [item]"
      by (simp add: unique_ids_def filter_unique)
    with committed_stock [of net "cartItems s" item "concurrent net db" db] w it row
    show "stock_table (backend (handlePlaceOrder net db s)) (pid item)
               = Some (stock_seen db (pid item) - quantity item)"
      by (simp add: hpo_committed_stock [OF assms(1-3) ns])
  qed
  from a c show ?thesis by (simp add: reads_def writes_def updateStock_overwrites)
qed

theorem commit_writes_verified_stock_minus_quantity_witness:
  "validateFields required (shippingInfo (checkout_page [newItem P1 2, newItem P3 1]))
   \<and> user (checkout_page [newItem P1 2, newItem P3 1]) = Some ''u1''
   \<and> reads_succeed racing shop [newItem P1 2, newItem P3 1]
   \<and> \<not> short shop (newItem P1 2) \<and> \<not> short shop (newItem P3 1)
   \<and> writes_succeed racing [newItem P1 2, newItem P3 1]
   \<and> unique_ids [newItem P1 2, newItem P3 1]
   \<and> stock_table shop ''P1'' = Some 5
   \<and> stock_table (concurrent racing shop) ''P1'' = Some 4
   \<and> requests (handlePlaceOrder racing shop (checkout_page [newItem P1 2, newItem P3 1])) =
       [SelectStock ''P1'', SelectStock ''P3'', UpdateStock ''P1'' 3, UpdateStock ''P3'' 3,
        InsertOrder (orderData ''u1'' [newItem P1 2, newItem P3 1])]
   \<and> stock_table (backend (handlePlaceOrder racing shop (checkout_page [newItem P1 2, newItem P3 1]))) ''P1''
       = Some 3"
proof -
  let ?c = "[newItem P1 2, newItem P3 1]"
  have h1: "validateFields required (shippingInfo (checkout_page ?c))" by (rule filled_valid)
  have h2: "user (checkout_page ?c) = Some ''u1''" by (simp add: checkout_page_def)
  have c: "cartItems (checkout_page ?c) = ?c" by (simp add: checkout_page_def)
  have h3: "reads_succeed racing shop ?c"
    by (simp add: reads_succeed_def racing_def example_defs P3_def)
  have s: "\<not> short shop (newItem P1 2) \<and> \<not> short shop (newItem P3 1)"
    by (simp add: short_def stock_seen_def example_defs P3_def)
  have w: "writes_succeed racing ?c" by (simp add: writes_succeed_def racing_def online_def)
  have u: "unique_ids ?c" by (simp add: unique_ids_def newItem_def P1_def P3_def)
  have v: "stock_seen shop ''P1'' = 5 \<and> stock_seen shop ''P3'' = 4 \<and> stock_table shop ''P1'' = Some 5"
    by (simp add: stock_seen_def shop_def)
  have r: "stock_table (concurrent racing shop) ''P1'' = Some 4
         \<and> stock_table (concurrent racing shop) ''P3'' = Some 4"
    by (simp add: racing_def online_def shop_def)
  have p: "pid (newItem P1 2) = ''P1'' \<and> pid (newItem P3 1) = ''P3''
        \<and> quantity (newItem P1 2) = 2 \<and> quantity (newItem P3 1) = 1"
    by (simp add: newItem_def P1_def P3_def)
  have h4: "\<forall>item \<in> set (cartItems (checkout_page ?c)). \<not> short shop item"
    using s by (simp add: c)
  from commit_writes_verified_stock_minus_quantity [OF h1 h2 _ h4, of racing] h1 h2 h3 s w u v r p
  show ?thesis by (simp add: c)
qed

subsection \<open>Shortage: no side effects\<close>

text \<open>
  Claim C3. When the guards have passed, the reads succeeded and some line is short, the
  attempt ends in the stock failure and changes nothing: the store (stock and orders) is
  as it was, only reads were sent, the stored cart and the page's cart are untouched, and
  the page differs only by the \<open>Stock unavailable\<close> notification and the cleared
  processing flag.
\<close>

theorem shortage_aborts_without_side_effects:
  assumes "validateFields required (shippingInfo s)" and "user s = Some u"
    and "reads_succeed net db (cartItems s)"
    and "\<exists>item \<in> set (cartItems s). short db item"
  shows
   "(\<exists>sh. outcome (handlePlaceOrder net db s) = Failed_stock sh)
    \<and> backend (handlePlaceOrder net db s) = db
    \<and> requests (handlePlaceOrder net db s) = map (\<lambda>item. SelectStock (pid item)) (cartItems s)
    \<and> page (handlePlaceOrder net db s) = s\<lparr>toasts := toasts s @ [StockUnavailable], isProcessing := False\<rparr>
    \<and> localStorage (page (handlePlaceOrder net db s)) = localStorage s
    \<and> cartItems (page (handlePlaceOrder net db s)) = cartItems s"
proof -
  from assms(4) have "filter (short db) (cartItems s) \<noteq> []" by (simp add: filter_empty_conv)
  from hpo_shortage [OF assms(1-3) this] show ?thesis
    by (simp add: reads_def raise_toast_def)
qed

theorem shortage_aborts_without_side_effects_witness:
  "validateFields required (shippingInfo (checkout_page [newItem P1 2, newItem P2 1]))
   \<and> user (checkout_page [newItem P1 2, newItem P2 1]) = Some ''u1''
   \<and> reads_succeed online shop [newItem P1 2, newItem P2 1]
   \<and> short shop (newItem P2 1)
   \<and> stock_table (backend (handlePlaceOrder online shop (checkout_page [newItem P1 2, newItem P2 1]))) ''P1'' = Some 5
   \<and> orders_table (backend (handlePlaceOrder online shop (checkout_page [newItem P1 2, newItem P2 1]))) = []
   \<and> requests (handlePlaceOrder online shop (checkout_page [newItem P1 2, newItem P2 1]))
        = [SelectStock ''P1'', SelectStock ''P2'']
   \<and> localStorage (page (handlePlaceOrder online shop (checkout_page [newItem P1 2, newItem P2 1])))
        = Some [newItem P1 2, newItem P2 1]"
proof -
  let ?c = "[newItem P1 2, newItem P2 1]"
  have h1: "validateFields required (shippingInfo (checkout_page ?c))" by (rule filled_valid)
  have h2: "user (checkout_page ?c) = Some ''u1''" by (simp add: checkout_page_def)
  have c: "cartItems (checkout_page ?c) = ?c" "localStorage (checkout_page ?c) = Some ?c"
    by (simp_all add: checkout_page_def)
  have h3: "reads_succeed online shop (cartItems (checkout_page ?c))"
    by (simp add: reads_succeed_def example_defs)
  have s: "short shop (newItem P2 1)"
    by (simp add: short_def stock_seen_def example_defs)
  then have h4: "\<exists>item \<in> set (cartItems (checkout_page ?c)). short shop item" by (simp add: c)
  have v: "stock_table shop ''P1'' = Some 5 \<and> orders_table shop = []" by (simp add: shop_def)
  have p: "pid (newItem P1 2) = ''P1'' \<and> pid (newItem P2 1) = ''P2''" by (simp add: newItem_def P1_def P2_def)
  from shortage_aborts_without_side_effects [OF h1 h2 h3 h4] h1 h2 h3 s v p
  show ?thesis by (simp add: c)
qed

subsection \<open>Failure of the order insert\<close>

text \<open>
  Claim C4. When verification passed, every stock write succeeded and the order insert
  fails, the attempt ends in the commit failure, it adds no order, and nothing is rolled
  back: the stock of every product of the cart (whose row still exists) holds the
  decremented value, stock seen at verification minus the quantity of the last line for
  that product, which with unique ids is the line itself; other products are as the other
  clients left them, and the stored cart, the page's cart and the location are as before.
\<close>

theorem failed_insert_keeps_decrements:
  assumes "validateFields required (shippingInfo s)" and "user s = Some u"
    and "reads_succeed net db (cartItems s)"
    and "\<forall>item \<in> set (cartItems s). \<not> short db item"
    and "writes_succeed net (cartItems s)"
    and "insert_fails net"
  shows
   "outcome (handlePlaceOrder net db s) = Failed_commit InsertFailed
    \<and> orders_table (backend (handlePlaceOrder net db s)) = orders_table (concurrent net db)
    \<and> (\<forall>item \<in> set (cartItems s).
          stock_table (concurrent net db) (pid item) \<noteq> None \<longrightarrow>
          stock_table (backend (handlePlaceOrder net db s)) (pid item)
            = Some (stock_seen db (pid item)
                    - quantity (last (filter (\<lambda>it. pid it = pid item) (cartItems s)))))
    \<and> (unique_ids (cartItems s) \<longrightarrow>
          (\<forall>item \<in> set (cartItems s).
             stock_table (concurrent net db) (pid item) \<noteq> None \<longrightarrow>
             stock_table (backend (handlePlaceOrder net db s)) (pid item)
               = Some (stock_seen db (pid item) - quantity item)))
    \<and> (\<forall>k. (\<forall>item \<in> set (cartItems s). pid item \<noteq> k) \<longrightarrow>
             stock_table (backend (handlePlaceOrder net db s)) k = stock_table (concurrent net db) k)
    \<and> localStorage (page (handlePlaceOrder net db s)) = localStorage s
    \<and> cartItems (page (handlePlaceOrder net db s)) = cartItems s
    \<and> location (page (handlePlaceOrder net db s)) = location s"
proof -
  let ?db' = "snd (stockUpdates net (map (observed db) (cartItems s)) (cartItems s) (concurrent net db))"
  from assms(4) have ns: "filter (short db) (cartItems s) = []" by (simp add: filter_empty_conv)
  note r = hpo_insert_error [OF assms(1-3) ns assms(5,6)]
  have b: "backend (handlePlaceOrder net db s) = ?db'" by (simp add: r order_failed_def)
  have last_write: "\<forall>item \<in> set (cartItems s).
      stock_table (concurrent net db) (pid item) \<noteq> None \<longrightarrow>
      stock_table ?db' (pid item)
        = Some (stock_seen db (pid item) - quantity (last (filter (\<lambda>it. pid it = pid item) (cartItems s))))"
    using committed_stock [OF assms(5)] by blast
  have uniq: "unique_ids (cartItems s) \<longrightarrow>
      (\<forall>item \<in> set (cartItems s).
         stock_table (concurrent net db) (pid item) \<noteq> None \<longrightarrow>
         stock_table ?db' (pid item) = Some (stock_seen db (pid item) - quantity item))"
    using last_write by (simp add: unique_ids_def filter_unique)
  have other: "\<forall>k. (\<forall>item \<in> set (cartItems s). pid item \<noteq> k) \<longrightarrow>
      stock_table ?db' k = stock_table (concurrent net db) k"
    by (simp add: stockUpdates_other)
  have o: "outcome (handlePlaceOrder net db s) = Failed_commit InsertFailed"
    by (simp add: r order_failed_def)
  have p: "localStorage (page (handlePlaceOrder net db s)) = localStorage s
    \<and> cartItems (page (handlePlaceOrder net db s)) = cartItems s
    \<and> location (page (handlePlaceOrder net db s)) = location s"
    by (simp add: r order_failed_def raise_toast_def)
  from o p last_write uniq other show ?thesis
    by (simp only: b stockUpdates_orders)
qed

theorem failed_insert_keeps_decrements_witness:
  "validateFields required (shippingInfo (checkout_page [newItem P1 2, newItem P3 1]))
   \<and> user (checkout_page [newItem P1 2, newItem P3 1]) = Some ''u1''
   \<and> reads_succeed offline_orders shop [newItem P1 2, newItem P3 1]
   \<and> \<not> short shop (newItem P1 2) \<and> \<not> short shop (newItem P3 1)
   \<and> writes_succeed offline_orders [newItem P1 2, newItem P3 1]
   \<and> insert_fails offline_orders
   \<and> unique_ids [newItem P1 2, newItem P3 1]
   \<and> outcome (handlePlaceOrder offline_orders shop (checkout_page [newItem P1 2, newItem P3 1]))
        = Failed_commit InsertFailed
   \<and> orders_table (backend (handlePlaceOrder offline_orders shop (checkout_page [newItem P1 2, newItem P3 1]))) = []
   \<and> stock_table (backend (handlePlaceOrder offline_orders shop (checkout_page [newItem P1 2, newItem P3 1]))) ''P1'' = Some 3
   \<and> stock_table (backend (handlePlaceOrder offline_orders shop (checkout_page [newItem P1 2, newItem P3 1]))) ''P3'' = Some 3
   \<and> stock_table (backend (handlePlaceOrder offline_orders shop (checkout_page [newItem P1 2, newItem P3 1]))) ''P2'' = Some 0
   \<and> localStorage (page (handlePlaceOrder offline_orders shop (checkout_page [newItem P1 2, newItem P3 1])))
        = Some [newItem P1 2, newItem P3 1]"
proof -
  let ?c = "[newItem P1 2, newItem P3 1]"
  have h1: "validateFields required (shippingInfo (checkout_page ?c))" by (rule filled_valid)
  have h2: "user (checkout_page ?c) = Some ''u1''" by (simp add: checkout_page_def)
  have c: "cartItems (checkout_page ?c) = ?c" "localStorage (checkout_page ?c) = Some ?c"
    by (simp_all add: checkout_page_def)
  have h3: "reads_succeed offline_orders shop ?c"
    by (simp add: reads_succeed_def example_defs P3_def offline_orders_def racing_def)
  have s: "\<not> short shop (newItem P1 2) \<and> \<not> short shop (newItem P3 1)"
    by (simp add: short_def stock_seen_def example_defs P3_def)
  have w: "writes_succeed offline_orders ?c"
    by (simp add: writes_succeed_def offline_orders_def racing_def online_def)
  have i: "insert_fails offline_orders" by (simp add: offline_orders_def)
  have u: "unique_ids ?c" by (simp add: unique_ids_def newItem_def P1_def P3_def)
  have v: "stock_seen shop ''P1'' = 5 \<and> stock_seen shop ''P3'' = 4"
    by (simp add: stock_seen_def shop_def)
  have r: "stock_table (concurrent offline_orders shop) ''P1'' = Some 4
         \<and> stock_table (concurrent offline_orders shop) ''P3'' = Some 4
         \<and> stock_table (concurrent offline_orders shop) ''P2'' = Some 0
         \<and> orders_table (concurrent offline_orders shop) = []"
    by (simp add: offline_orders_def racing_def online_def shop_def)
  have p: "pid (newItem P1 2) = ''P1'' \<and> pid (newItem P3 1) = ''P3''
        \<and> quantity (newItem P1 2) = 2 \<and> quantity (newItem P3 1) = 1"
    by (simp add: newItem_def P1_def P3_def)
  have h4: "\<forall>item \<in> set (cartItems (checkout_page ?c)). \<not> short shop item"
    using s by (simp add: c)
  from failed_insert_keeps_decrements [OF h1 h2 _ h4 _ i] h1 h2 h3 s w i u v r p
  show ?thesis by (simp add: c)
qed

subsection \<open>The guard of the place-order action\<close>

text \<open>
  Claim C5. On a checkout page that loaded its cart and was not sent away, the place-order
  action proceeds past \<open>Idle\<close> only when the cart is non-empty and all eight required
  shipping fields (first name, last name, email, phone, address, city, state, postal
  code) are non-blank. The two halves of the guard sit in two places. The fields, and the
  signed-in user, are tested by the action itself: in any state it proceeds exactly when a
  user is signed in and the eight fields are non-blank, and when any required field is
  blank it stays \<open>Idle\<close>, sends no request (no verification, no stock write, no order
  insert), leaves the store unchanged and changes nothing on the page but the
  \<open>Missing information\<close> notification. The cart is tested when the page loads it: an
  absent or empty stored cart redirects to the cart page and leaves \<open>cartItems\<close> as it
  is, a non-empty one becomes \<open>cartItems\<close>, so a page that is still on the checkout route
  after loading has a non-empty cart.
\<close>

theorem place_order_guard:
  "(loaded_from s0 s \<and> outcome (handlePlaceOrder net db s) \<noteq> Idle \<longrightarrow>
      cartItems s \<noteq> []
      \<and> \<not> blank (firstName (shippingInfo s)) \<and> \<not> blank (lastName (shippingInfo s))
      \<and> \<not> blank (email (shippingInfo s)) \<and> \<not> blank (phone (shippingInfo s))
      \<and> \<not> blank (address (shippingInfo s)) \<and> \<not> blank (city (shippingInfo s))
      \<and> \<not> blank (state (shippingInfo s)) \<and> \<not> blank (zipCode (shippingInfo s)))
   \<and> (outcome (handlePlaceOrder net db s) \<noteq> Idle \<longleftrightarrow>
      user s \<noteq> None
      \<and> \<not> blank (firstName (shippingInfo s)) \<and> \<not> blank (lastName (shippingInfo s))
      \<and> \<not> blank (email (shippingInfo s)) \<and> \<not> blank (phone (shippingInfo s))
      \<and> \<not> blank (address (shippingInfo s)) \<and> \<not> blank (city (shippingInfo s))
      \<and> \<not> blank (state (shippingInfo s)) \<and> \<not> blank (zipCode (shippingInfo s)))
   \<and> (blank (firstName (shippingInfo s)) \<or> blank (lastName (shippingInfo s))
        \<or> blank (email (shippingInfo s)) \<or> blank (phone (shippingInfo s))
        \<or> blank (address (shippingInfo s)) \<or> blank (city (shippingInfo s))
        \<or> blank (state (shippingInfo s)) \<or> blank (zipCode (shippingInfo s))
      \<longrightarrow> outcome (handlePlaceOrder net db s) = Idle
          \<and> requests (handlePlaceOrder net db s) = []
          \<and> backend (handlePlaceOrder net db s) = db
          \<and> page (handlePlaceOrder net db s) = s\<lparr>toasts := toasts s @ [MissingInformation]\<rparr>)
   \<and> (localStorage s0 = None \<or> localStorage s0 = Some []
      \<longrightarrow> location (loadCartFromStorage s0) = ''/cart''
          \<and> cartItems (loadCartFromStorage s0) = cartItems s0)
   \<and> (\<forall>items. localStorage s0 = Some items \<and> items \<noteq> []
      \<longrightarrow> loadCartFromStorage s0 = s0\<lparr>cartItems := items\<rparr>)
   \<and> (location (loadCartFromStorage s0) \<noteq> ''/cart'' \<longrightarrow> cartItems (loadCartFromStorage s0) \<noteq> [])"
proof -
  have a: "outcome (handlePlaceOrder net db s) \<noteq> Idle \<longleftrightarrow>
      user s \<noteq> None
      \<and> \<not> blank (firstName (shippingInfo s)) \<and> \<not> blank (lastName (shippingInfo s))
      \<and> \<not> blank (email (shippingInfo s)) \<and> \<not> blank (phone (shippingInfo s))
      \<and> \<not> blank (address (shippingInfo s)) \<and> \<not> blank (city (shippingInfo s))
      \<and> \<not> blank (state (shippingInfo s)) \<and> \<not> blank (zipCode (shippingInfo s))"
    unfolding outcome_Idle_iff required_valid by blast
  have b: "\<not> validateFields required (shippingInfo s) \<Longrightarrow>
      outcome (handlePlaceOrder net db s) = Idle
      \<and> requests (handlePlaceOrder net db s) = []
      \<and> backend (handlePlaceOrder net db s) = db
      \<and> page (handlePlaceOrder net db s) = s\<lparr>toasts := toasts s @ [MissingInformation]\<rparr>"
    by (simp add: hpo_invalid raise_toast_def)
  have c: "localStorage s0 = None \<or> localStorage s0 = Some []
      \<longrightarrow> location (loadCartFromStorage s0) = ''/cart''
          \<and> cartItems (loadCartFromStorage s0) = cartItems s0"
    by (auto simp: loadCartFromStorage_def navigate_def raise_toast_def)
  have d: "\<forall>items. localStorage s0 = Some items \<and> items \<noteq> []
      \<longrightarrow> loadCartFromStorage s0 = s0\<lparr>cartItems := items\<rparr>"
    by (simp add: loadCartFromStorage_def)
  from b have b': "blank (firstName (shippingInfo s)) \<or> blank (lastName (shippingInfo s))
        \<or> blank (email (shippingInfo s)) \<or> blank (phone (shippingInfo s))
        \<or> blank (address (shippingInfo s)) \<or> blank (city (shippingInfo s))
        \<or> blank (state (shippingInfo s)) \<or> blank (zipCode (shippingInfo s))
      \<longrightarrow> outcome (handlePlaceOrder net db s) = Idle
          \<and> requests (handlePlaceOrder net db s) = []
          \<and> backend (handlePlaceOrder net db s) = db
          \<and> page (handlePlaceOrder net db s) = s\<lparr>toasts := toasts s @ [MissingInformation]\<rparr>"
    unfolding required_valid by blast
  have e: "location (loadCartFromStorage s0) \<noteq> ''/cart'' \<longrightarrow> cartItems (loadCartFromStorage s0) \<noteq> []"
    by (auto simp: loadCartFromStorage_def navigate_def raise_toast_def split: option.splits)
  have g: "loaded_from s0 s \<and> outcome (handlePlaceOrder net db s) \<noteq> Idle \<longrightarrow>
      cartItems s \<noteq> []
      \<and> \<not> blank (firstName (shippingInfo s)) \<and> \<not> blank (lastName (shippingInfo s))
      \<and> \<not> blank (email (shippingInfo s)) \<and> \<not> blank (phone (shippingInfo s))
      \<and> \<not> blank (address (shippingInfo s)) \<and> \<not> blank (city (shippingInfo s))
      \<and> \<not> blank (state (shippingInfo s)) \<and> \<not> blank (zipCode (shippingInfo s))"
  proof (intro impI, elim conjE)
    assume l: "loaded_from s0 s" and o: "outcome (handlePlaceOrder net db s) \<noteq> Idle"
    from l have "location (loadCartFromStorage s0) \<noteq> ''/cart''" by (simp add: loaded_from_def)
    with e have "cartItems (loadCartFromStorage s0) \<noteq> []" by blast
    with l have "cartItems s \<noteq> []" by (simp add: loaded_from_def)
    with a o show "cartItems s \<noteq> []
      \<and> \<not> blank (firstName (shippingInfo s)) \<and> \<not> blank (lastName (shippingInfo s))
      \<and> \<not> blank (email (shippingInfo s)) \<and> \<not> blank (phone (shippingInfo s))
      \<and> \<not> blank (address (shippingInfo s)) \<and> \<not> blank (city (shippingInfo s))
      \<and> \<not> blank (state (shippingInfo s)) \<and> \<not> blank (zipCode (shippingInfo s))"
      by blast
  qed
  from g a b' c d e show ?thesis by (intro conjI)
qed

theorem place_order_guard_witness:
  "loaded_from mounted_page (checkout_page [newItem P1 2])
   \<and> outcome (handlePlaceOrder online shop (checkout_page [newItem P1 2])) \<noteq> Idle
   \<and> cartItems (checkout_page [newItem P1 2]) = [newItem P1 2]
   \<and> loaded_from mounted_page city_blank
   \<and> blank (city (shippingInfo city_blank))
   \<and> outcome (handlePlaceOrder online shop city_blank) = Idle
   \<and> requests (handlePlaceOrder online shop city_blank) = []
   \<and> backend (handlePlaceOrder online shop city_blank) = shop
   \<and> page (handlePlaceOrder online shop city_blank) = city_blank\<lparr>toasts := [MissingInformation]\<rparr>
   \<and> localStorage (checkout_page []) = Some []
   \<and> location (loadCartFromStorage (checkout_page [])) = ''/cart''
   \<and> \<not> loaded_from (checkout_page []) (checkout_page [])
   \<and> loadCartFromStorage mounted_page = mounted_page\<lparr>cartItems := [newItem P1 2]\<rparr>"
proof -
  have ld: "loadCartFromStorage mounted_page = mounted_page\<lparr>cartItems := [newItem P1 2]\<rparr>"
    by (simp add: loadCartFromStorage_def mounted_page_def)
  have l1: "loaded_from mounted_page (checkout_page [newItem P1 2])"
    by (simp add: loaded_from_def ld) (simp add: mounted_page_def checkout_page_def)
  have l2: "loaded_from mounted_page city_blank"
    by (simp add: loaded_from_def ld) (simp add: mounted_page_def city_blank_def checkout_page_def)
  have c: "cartItems (checkout_page [newItem P1 2]) = [newItem P1 2]" by (simp add: checkout_page_def)
  have b: "blank (city (shippingInfo city_blank))"
    by (simp add: city_blank_def blank_def isWhiteSpace_def)
  have t: "toasts city_blank = []" by (simp add: city_blank_def checkout_page_def)
  have f: "user (checkout_page [newItem P1 2]) \<noteq> None
      \<and> \<not> blank (firstName (shippingInfo (checkout_page [newItem P1 2])))
      \<and> \<not> blank (lastName (shippingInfo (checkout_page [newItem P1 2])))
      \<and> \<not> blank (email (shippingInfo (checkout_page [newItem P1 2])))
      \<and> \<not> blank (phone (shippingInfo (checkout_page [newItem P1 2])))
      \<and> \<not> blank (address (shippingInfo (checkout_page [newItem P1 2])))
      \<and> \<not> blank (city (shippingInfo (checkout_page [newItem P1 2])))
      \<and> \<not> blank (state (shippingInfo (checkout_page [newItem P1 2])))
      \<and> \<not> blank (zipCode (shippingInfo (checkout_page [newItem P1 2])))"
    by (simp add: checkout_page_def filled_def blank_def isWhiteSpace_def)
  have e: "localStorage (checkout_page []) = Some []" by (simp add: checkout_page_def)
  have n: "localStorage mounted_page = Some [newItem P1 2] \<and> [newItem P1 2] \<noteq> []"
    by (simp add: mounted_page_def)
  from place_order_guard [of mounted_page "checkout_page [newItem P1 2]" online shop]
       place_order_guard [of mounted_page city_blank online shop]
       place_order_guard [of "checkout_page []" "checkout_page []" online shop]
       l1 l2 c b t f e n ld
  show ?thesis by (simp add: loaded_from_def)
qed

subsection \<open>Totals\<close>

text \<open>
  Claim C6, as stated, fails: the total recorded on an order is the subtotal times 1.08,
  not rounded, which differs from the subtotal plus the tax rounded to two decimals. One
  card at 0.10 is recorded with total 0.108, where the specification's total is 0.11.
\<close>

theorem order_total_unrounded_counterexample:
  "outcome (handlePlaceOrder online shop (checkout_page [newItem P3 1])) = Succeeded
   \<and> map total (orders_table (backend (handlePlaceOrder online shop (checkout_page [newItem P3 1])))) = [27 / 250]
   \<and> totals_spec [newItem P3 1] = (1 / 10, 1 / 100, 11 / 100)
   \<and> map total (orders_table (backend (handlePlaceOrder online shop (checkout_page [newItem P3 1]))))
        \<noteq> [snd (snd (totals_spec [newItem P3 1]))]"
proof -
  let ?c = "[newItem P3 1]"
  have h1: "validateFields required (shippingInfo (checkout_page ?c))" by (rule filled_valid)
  have h2: "user (checkout_page ?c) = Some ''u1''" by (simp add: checkout_page_def)
  have c: "cartItems (checkout_page ?c) = ?c" by (simp add: checkout_page_def)
  have h3: "reads_succeed online shop (cartItems (checkout_page ?c))"
    unfolding c by (simp add: reads_succeed_def online_def shop_def newItem_def P3_def)
  have h4: "filter (short shop) (cartItems (checkout_page ?c)) = []"
    unfolding c by (simp add: short_def stock_seen_def shop_def newItem_def P3_def)
  have h5: "writes_succeed online (cartItems (checkout_page ?c))"
    by (simp add: c writes_succeed_def online_def)
  have h6: "\<not> insert_fails online" by (simp add: online_def)
  have t: "total (orderData ''u1'' ?c) = 27 / 250"
    by (simp add: orderData_def getTotalPrice_def newItem_def P3_def)
  have fl: "\<lfloor>13 / 10 :: rat\<rfloor> = 1" by (rule floor_unique) simp_all
  have sp: "totals_spec ?c = (1 / 10, 1 / 100, 11 / 100)"
    by (simp add: totals_spec_def Let_def newItem_def P3_def round_def fl)
  have e: "orders_table shop = []" by (simp add: shop_def)
  from hpo_success [OF h1 h2 h3 h4 h5 h6] t sp e show ?thesis
    by (simp add: c concurrent_online stockUpdates_orders del: stockUpdates.simps)
qed

text \<open>
  Claim C6, amended. The subtotal is a function of the cart alone, the sum of price times
  quantity over its lines, as in the specification. The total recorded on a placed order
  is that subtotal times 1.08, which is the subtotal plus the unrounded tax of 8 percent;
  a successful attempt appends exactly one order, carrying this total. Rounding to two
  decimals happens only in the rendered summary: the tax shown is the specification's
  rounded tax, and the total shown is the recorded total rounded.
\<close>

theorem order_total_is_subtotal_times_108:
  "getTotalPrice items = (\<Sum>item\<leftarrow>items. price item * of_int (quantity item))
   \<and> fst (totals_spec items) = getTotalPrice items
   \<and> total (orderData u items) = getTotalPrice items * (108 / 100)
   \<and> total (orderData u items) = getTotalPrice items + getTotalPrice items * (8 / 100)
   \<and> fst (snd (orderSummary items)) = fst (snd (totals_spec items))
   \<and> snd (snd (orderSummary items)) = toFixed2 (total (orderData u items))
   \<and> (outcome (handlePlaceOrder net db s) = Succeeded \<longrightarrow>
        (\<exists>v. user s = Some v
           \<and> orders_table (backend (handlePlaceOrder net db s))
               = orders_table (concurrent net db) @ [orderData v (cartItems s)]))"
proof -
  have a: "getTotalPrice items = (\<Sum>item\<leftarrow>items. price item * of_int (quantity item))"
    by (rule getTotalPrice_sum)
  have b: "fst (totals_spec items) = getTotalPrice items"
    by (simp add: totals_spec_def Let_def getTotalPrice_sum)
  have c: "total (orderData u items) = getTotalPrice items * (108 / 100)"
    by (simp add: orderData_def)
  have d: "total (orderData u items) = getTotalPrice items + getTotalPrice items * (8 / 100)"
    by (simp add: orderData_def algebra_simps)
  have e: "outcome (handlePlaceOrder net db s) = Succeeded \<longrightarrow>
        (\<exists>v. user s = Some v
           \<and> orders_table (backend (handlePlaceOrder net db s))
               = orders_table (concurrent net db) @ [orderData v (cartItems s)])"
    using outcome_Succeeded_order by blast
  have f: "fst (snd (orderSummary items)) = fst (snd (totals_spec items))"
    by (simp add: orderSummary_def toFixed2_def totals_spec_def Let_def getTotalPrice_sum)
  have g: "snd (snd (orderSummary items)) = toFixed2 (total (orderData u items))"
    by (simp add: orderSummary_def orderData_def)
  from a b c d e f g show ?thesis by (intro conjI)
qed

theorem order_total_is_subtotal_times_108_witness:
  "outcome (handlePlaceOrder online shop (checkout_page [newItem P1 2])) = Succeeded
   \<and> getTotalPrice [newItem P1 2] = 20
   \<and> orders_table (backend (handlePlaceOrder online shop (checkout_page [newItem P1 2])))
        = [orderData ''u1'' [newItem P1 2]]
   \<and> total (orderData ''u1'' [newItem P1 2]) = 108 / 5
   \<and> stock_table (backend (handlePlaceOrder online shop (checkout_page [newItem P1 2]))) ''P1'' = Some 3"
proof -
  let ?c = "[newItem P1 2]"
  have h1: "validateFields required (shippingInfo (checkout_page ?c))" by (rule filled_valid)
  have h2: "user (checkout_page ?c) = Some ''u1''" by (simp add: checkout_page_def)
  have c: "cartItems (checkout_page ?c) = ?c" by (simp add: checkout_page_def)
  have h3: "reads_succeed online shop (cartItems (checkout_page ?c))"
    unfolding c by (simp add: reads_succeed_def example_defs)
  have h4: "filter (short shop) (cartItems (checkout_page ?c)) = []"
    unfolding c by (simp add: short_def stock_seen_def example_defs)
  have h5: "writes_succeed online (cartItems (checkout_page ?c))"
    by (simp add: c writes_succeed_def online_def)
  have h6: "\<not> insert_fails online" by (simp add: online_def)
  have o: "outcome (handlePlaceOrder online shop (checkout_page ?c)) = Succeeded"
    by (simp add: hpo_success [OF h1 h2 h3 h4 h5 h6])
  have "stock_table (backend (handlePlaceOrder online shop (checkout_page ?c))) ''P1''
      = stock_table (snd (stockUpdates online (map (observed shop) ?c) ?c shop)) ''P1''"
    by (simp add: hpo_success [OF h1 h2 h3 h4 h5 h6] c concurrent_online del: stockUpdates.simps)
  also have "\<dots> = Some 3"
    by (simp add: updateStock_def newStockFor_def or0_def observed_def stock_seen_def
          online_def shop_def newItem_def P1_def)
  finally have st: "stock_table (backend (handlePlaceOrder online shop (checkout_page ?c))) ''P1'' = Some 3" .
  have g: "getTotalPrice ?c = 20" by (simp add: getTotalPrice_def newItem_def P1_def)
  have e: "orders_table shop = []" by (simp add: shop_def)
  from order_total_is_subtotal_times_108 [of ?c "''u1''" online shop "checkout_page ?c"] o st g e h2
  show ?thesis by (simp add: c concurrent_online)
qed

end
